theory Spec2Isabelle
  imports Complex_Main
begin

section \<open>Python values and exceptions\<close>

text \<open>
  The values that \<^verbatim>\<open>json.loads\<close> produces and that the handlers pass around
  (\<^verbatim>\<open>Any\<close> in the source). \<open>JNull\<close> is Python's \<^verbatim>\<open>None\<close>. A dictionary is an
  association list in insertion order, read with \<open>map_of\<close>.
\<close>

datatype json =
    JNull
  | JBool bool
  | JInt int
  | JFloat real
  | JStr string
  | JList "json list"
  | JObj "(string \<times> json) list"

text \<open>
  The exceptions (all subclasses of \<^verbatim>\<open>Exception\<close>) that the modelled code can see.
  \<open>ValueError\<close> carries its message, \<open>KeyError\<close> the missing key, \<open>AttributeError\<close> and
  \<open>TypeError\<close> the interpreter's message, and \<open>Raised\<close> is any exception raised inside a
  collaborator (a tool implementation, the Redis client, the registry), carrying what
  \<^verbatim>\<open>str(e)\<close> gives for it.
\<close>

datatype exception =
    ValueError string
  | KeyError string
  | AttributeError string
  | TypeError string
  | Raised string

definition quoted :: "string \<Rightarrow> string" where
  "quoted s = CHR 0x27 # s @ [CHR 0x27]"

text \<open>\<^verbatim>\<open>str(e)\<close>: a \<^verbatim>\<open>KeyError\<close> prints the repr of its key.\<close>

fun str_exc :: "exception \<Rightarrow> string" where
  "str_exc (ValueError m) = m"
| "str_exc (KeyError k) = quoted k"
| "str_exc (AttributeError m) = m"
| "str_exc (TypeError m) = m"
| "str_exc (Raised m) = m"

fun type_name :: "json \<Rightarrow> string" where
  "type_name JNull = ''NoneType''"
| "type_name (JBool _) = ''bool''"
| "type_name (JInt _) = ''int''"
| "type_name (JFloat _) = ''float''"
| "type_name (JStr _) = ''str''"
| "type_name (JList _) = ''list''"
| "type_name (JObj _) = ''dict''"

text \<open>
  \<^verbatim>\<open>d.get(k, default)\<close>: only a dictionary has the method; on any other value the
  attribute lookup raises.
\<close>

fun dict_get :: "json \<Rightarrow> string \<Rightarrow> json \<Rightarrow> exception + json" where
  "dict_get (JObj kvs) k dflt = Inr (case map_of kvs k of None \<Rightarrow> dflt | Some v \<Rightarrow> v)"
| "dict_get v k dflt =
     Inl (AttributeError (quoted (type_name v) @ '' object has no attribute '' @ quoted ''get''))"

text \<open>\<^verbatim>\<open>d[k]\<close> with a string key \<open>k\<close>: a missing key raises, and so does any non-dictionary.\<close>

fun getitem :: "json \<Rightarrow> string \<Rightarrow> exception + json" where
  "getitem (JObj kvs) k = (case map_of kvs k of None \<Rightarrow> Inl (KeyError k) | Some v \<Rightarrow> Inr v)"
| "getitem (JStr _) k = Inl (TypeError (''string indices must be integers, not '' @ quoted ''str''))"
| "getitem (JList _) k = Inl (TypeError ''list indices must be integers or slices, not str'')"
| "getitem v k = Inl (TypeError (quoted (type_name v) @ '' object is not subscriptable''))"

text \<open>Sequencing of two steps of which the first may raise.\<close>

definition bind_exc :: "exception + 'a \<Rightarrow> ('a \<Rightarrow> exception + 'b) \<Rightarrow> exception + 'b" where
  "bind_exc r f = (case r of Inl e \<Rightarrow> Inl e | Inr v \<Rightarrow> f v)"

section \<open>Protocol models\<close>

type_synonym params = "(string \<times> json) list option"

record JsonRpcRequest =
  req_jsonrpc :: string
  req_id :: json
  req_method :: string
  req_params :: params

record JsonRpcResponse =
  resp_jsonrpc :: string
  resp_id :: json
  resp_result :: json
  resp_error :: "(string \<times> json) list option"

text \<open>\<^verbatim>\<open>JsonRpcResponse(id=..., result=...)\<close> and \<^verbatim>\<open>JsonRpcResponse(id=..., error=...)\<close>:
  the fields left out take their defaults.\<close>

definition result_response :: "json \<Rightarrow> json \<Rightarrow> JsonRpcResponse" where
  "result_response i r =
     \<lparr>resp_jsonrpc = ''2.0'', resp_id = i, resp_result = r, resp_error = None\<rparr>"

definition error_response :: "json \<Rightarrow> int \<Rightarrow> string \<Rightarrow> JsonRpcResponse" where
  "error_response i c m =
     \<lparr>resp_jsonrpc = ''2.0'', resp_id = i, resp_result = JNull,
      resp_error = Some [(''code'', JInt c), (''message'', JStr m)]\<rparr>"

definition error_code :: "JsonRpcResponse \<Rightarrow> json option" where
  "error_code r = (case resp_error r of None \<Rightarrow> None | Some d \<Rightarrow> map_of d ''code'')"

section \<open>Server constants\<close>

definition SERVER_INFO :: json where
  "SERVER_INFO = JObj [
    (''name'', JStr ''augments-mcp-server''),
    (''version'', JStr ''2.0.0'')]"

definition CAPABILITIES :: json where
  "CAPABILITIES = JObj [
    (''tools'', JObj []),
    (''completion'', JObj [])]"

definition TOOLS :: json where
  "TOOLS = JList [JObj [
      (''name'', JStr ''list_available_frameworks''),
      (''description'', JStr ''List all available frameworks, optionally filtered by category''),
      (''inputSchema'', JObj [
        (''type'', JStr ''object''),
        (''properties'', JObj [
          (''category'', JObj [
            (''type'', JStr ''string''),
            (''description'', JStr ''Filter by category (web, backend, mobile, ai-ml, design, tools)'')])])])],
    JObj [
      (''name'', JStr ''search_frameworks''),
      (''description'', JStr ''Search for frameworks by name, keyword, or feature''),
      (''inputSchema'', JObj [
        (''type'', JStr ''object''),
        (''properties'', JObj [
          (''query'', JObj [
            (''type'', JStr ''string''),
            (''description'', JStr ''Search term to match against framework names and features'')])]),
        (''required'', JList [JStr ''query''])])],
    JObj [
      (''name'', JStr ''get_framework_info''),
      (''description'', JStr ''Get detailed information about a specific framework''),
      (''inputSchema'', JObj [
        (''type'', JStr ''object''),
        (''properties'', JObj [
          (''framework'', JObj [
            (''type'', JStr ''string''),
            (''description'', JStr ''Framework name'')])]),
        (''required'', JList [JStr ''framework''])])],
    JObj [
      (''name'', JStr ''get_framework_docs''),
      (''description'', JStr ''Retrieve comprehensive documentation for a specific framework''),
      (''inputSchema'', JObj [
        (''type'', JStr ''object''),
        (''properties'', JObj [
          (''framework'', JObj [
            (''type'', JStr ''string''),
            (''description'', JStr ''Framework name (e.g., 'react', 'tailwind', 'laravel')'')]),
          (''section'', JObj [
            (''type'', JStr ''string''),
            (''description'', JStr ''Specific documentation section'')]),
          (''use_cache'', JObj [
            (''type'', JStr ''boolean''),
            (''description'', JStr ''Whether to use cached content (default: true)''),
            (''default'', JBool True)])]),
        (''required'', JList [JStr ''framework''])])],
    JObj [
      (''name'', JStr ''get_framework_examples''),
      (''description'', JStr ''Get code examples for specific patterns within a framework''),
      (''inputSchema'', JObj [
        (''type'', JStr ''object''),
        (''properties'', JObj [
          (''framework'', JObj [
            (''type'', JStr ''string''),
            (''description'', JStr ''Framework name'')]),
          (''pattern'', JObj [
            (''type'', JStr ''string''),
            (''description'', JStr ''Specific pattern (e.g., 'components', 'routing', 'authentication')'')])]),
        (''required'', JList [JStr ''framework''])])],
    JObj [
      (''name'', JStr ''search_documentation''),
      (''description'', JStr ''Search within a framework's cached documentation''),
      (''inputSchema'', JObj [
        (''type'', JStr ''object''),
        (''properties'', JObj [
          (''framework'', JObj [
            (''type'', JStr ''string''),
            (''description'', JStr ''Framework name to search within'')]),
          (''query'', JObj [
            (''type'', JStr ''string''),
            (''description'', JStr ''Search query'')]),
          (''limit'', JObj [
            (''type'', JStr ''integer''),
            (''description'', JStr ''Maximum number of results (default: 10)''),
            (''default'', JInt 10)])]),
        (''required'', JList [JStr ''framework'',
          JStr ''query''])])],
    JObj [
      (''name'', JStr ''get_framework_context''),
      (''description'', JStr ''Get relevant context for multiple frameworks based on the development task''),
      (''inputSchema'', JObj [
        (''type'', JStr ''object''),
        (''properties'', JObj [
          (''frameworks'', JObj [
            (''type'', JStr ''array''),
            (''items'', JObj [
              (''type'', JStr ''string'')]),
            (''description'', JStr ''List of framework names being used'')]),
          (''task_description'', JObj [
            (''type'', JStr ''string''),
            (''description'', JStr ''Description of what you're trying to build'')])]),
        (''required'', JList [JStr ''frameworks'',
          JStr ''task_description''])])],
    JObj [
      (''name'', JStr ''analyze_code_compatibility''),
      (''description'', JStr ''Analyze code for framework compatibility and suggest improvements''),
      (''inputSchema'', JObj [
        (''type'', JStr ''object''),
        (''properties'', JObj [
          (''code'', JObj [
            (''type'', JStr ''string''),
            (''description'', JStr ''Code snippet to analyze'')]),
          (''frameworks'', JObj [
            (''type'', JStr ''array''),
            (''items'', JObj [
              (''type'', JStr ''string'')]),
            (''description'', JStr ''List of frameworks the code should work with'')])]),
        (''required'', JList [JStr ''code'',
          JStr ''frameworks''])])],
    JObj [
      (''name'', JStr ''check_framework_updates''),
      (''description'', JStr ''Check if framework documentation has been updated since last cache''),
      (''inputSchema'', JObj [
        (''type'', JStr ''object''),
        (''properties'', JObj [
          (''framework'', JObj [
            (''type'', JStr ''string''),
            (''description'', JStr ''Framework name to check'')])]),
        (''required'', JList [JStr ''framework''])])],
    JObj [
      (''name'', JStr ''refresh_framework_cache''),
      (''description'', JStr ''Refresh cached documentation for frameworks''),
      (''inputSchema'', JObj [
        (''type'', JStr ''object''),
        (''properties'', JObj [
          (''framework'', JObj [
            (''type'', JStr ''string''),
            (''description'', JStr ''Specific framework to refresh, or None for all'')]),
          (''force'', JObj [
            (''type'', JStr ''boolean''),
            (''description'', JStr ''Force refresh even if cache is still valid''),
            (''default'', JBool False)])])])],
    JObj [
      (''name'', JStr ''get_cache_stats''),
      (''description'', JStr ''Get detailed cache statistics and performance metrics''),
      (''inputSchema'', JObj [
        (''type'', JStr ''object''),
        (''properties'', JObj [])])],
    JObj [
      (''name'', JStr ''get_registry_stats''),
      (''description'', JStr ''Get statistics about the framework registry''),
      (''inputSchema'', JObj [
        (''type'', JStr ''object''),
        (''properties'', JObj [])])]]"

section \<open>Tool dispatch\<close>

text \<open>
  The tool implementations (\<^verbatim>\<open>framework_discovery\<close>, \<^verbatim>\<open>documentation\<close>,
  \<^verbatim>\<open>context_enhancement\<close>, \<^verbatim>\<open>updates\<close>) are collaborators of the dispatcher. A
  \<open>tool_call\<close> is one call of the \<^verbatim>\<open>elif\<close> chain with the keyword arguments the
  dispatcher builds from the request, in the order of the source; the global
  \<^verbatim>\<open>registry\<close>, \<^verbatim>\<open>cache\<close> and provider arguments are the same in every call and are left
  out.
\<close>

datatype tool_call =
    List_available_frameworks (category: json)
  | Search_frameworks (query: json)
  | Get_framework_info (framework: json)
  | Get_framework_docs (framework: json) (section_arg: json) (use_cache: json)
  | Get_framework_examples (framework: json) (pattern: json)
  | Search_documentation (framework: json) (query: json) (limit: json)
  | Get_framework_context (frameworks: json) (task_description: json)
  | Analyze_code_compatibility (code: json) (frameworks: json)
  | Check_framework_updates (framework: json)
  | Refresh_framework_cache (framework: json) (force: json)
  | Get_cache_statistics
  | Get_registry_stats

text \<open>
  What the dispatcher does not define itself: \<open>invoke\<close> is the outcome of awaiting a tool
  implementation (its result, or the exception it raises), and \<open>py_str\<close> is \<^verbatim>\<open>str()\<close> on
  the values that are not strings (used by the f-string of the unknown-tool message).
\<close>

record collaborators =
  invoke :: "tool_call \<Rightarrow> exception + json"
  py_str :: "json \<Rightarrow> string"

definition format_value :: "collaborators \<Rightarrow> json \<Rightarrow> string" where
  "format_value C v = (case v of JStr s \<Rightarrow> s | _ \<Rightarrow> py_str C v)"

text \<open>
  The \<^verbatim>\<open>if\<close>/\<^verbatim>\<open>elif\<close> chain of \<^verbatim>\<open>handle_tools_call\<close>: the call that is made for a tool
  name and its arguments, or the exception raised while the keyword arguments are
  evaluated (left to right) or by the final \<^verbatim>\<open>else\<close>.
\<close>

definition tool_invocation :: "collaborators \<Rightarrow> json \<Rightarrow> json \<Rightarrow> exception + tool_call" where
  "tool_invocation C tool_name tool_params =
    (if tool_name = JStr ''list_available_frameworks'' then
       bind_exc (dict_get tool_params ''category'' JNull) (\<lambda>c.
       Inr (List_available_frameworks c))
     else if tool_name = JStr ''search_frameworks'' then
       bind_exc (getitem tool_params ''query'') (\<lambda>q.
       Inr (Search_frameworks q))
     else if tool_name = JStr ''get_framework_info'' then
       bind_exc (getitem tool_params ''framework'') (\<lambda>f.
       Inr (Get_framework_info f))
     else if tool_name = JStr ''get_framework_docs'' then
       bind_exc (getitem tool_params ''framework'') (\<lambda>f.
       bind_exc (dict_get tool_params ''section'' JNull) (\<lambda>s.
       bind_exc (dict_get tool_params ''use_cache'' (JBool True)) (\<lambda>u.
       Inr (Get_framework_docs f s u))))
     else if tool_name = JStr ''get_framework_examples'' then
       bind_exc (getitem tool_params ''framework'') (\<lambda>f.
       bind_exc (dict_get tool_params ''pattern'' JNull) (\<lambda>p.
       Inr (Get_framework_examples f p)))
     else if tool_name = JStr ''search_documentation'' then
       bind_exc (getitem tool_params ''framework'') (\<lambda>f.
       bind_exc (getitem tool_params ''query'') (\<lambda>q.
       bind_exc (dict_get tool_params ''limit'' (JInt 10)) (\<lambda>l.
       Inr (Search_documentation f q l))))
     else if tool_name = JStr ''get_framework_context'' then
       bind_exc (getitem tool_params ''frameworks'') (\<lambda>fs.
       bind_exc (getitem tool_params ''task_description'') (\<lambda>t.
       Inr (Get_framework_context fs t)))
     else if tool_name = JStr ''analyze_code_compatibility'' then
       bind_exc (getitem tool_params ''code'') (\<lambda>c.
       bind_exc (getitem tool_params ''frameworks'') (\<lambda>fs.
       Inr (Analyze_code_compatibility c fs)))
     else if tool_name = JStr ''check_framework_updates'' then
       bind_exc (getitem tool_params ''framework'') (\<lambda>f.
       Inr (Check_framework_updates f))
     else if tool_name = JStr ''refresh_framework_cache'' then
       bind_exc (dict_get tool_params ''framework'' JNull) (\<lambda>f.
       bind_exc (dict_get tool_params ''force'' (JBool False)) (\<lambda>fo.
       Inr (Refresh_framework_cache f fo)))
     else if tool_name = JStr ''get_cache_stats'' then
       Inr Get_cache_statistics
     else if tool_name = JStr ''get_registry_stats'' then
       Inr Get_registry_stats
     else
       Inl (ValueError (''Unknown tool: '' @ format_value C tool_name)))"

section \<open>Method handlers\<close>

definition handle_initialize :: "params \<Rightarrow> exception + json" where
  "handle_initialize ps =
     Inr (JObj [(''protocolVersion'', JStr ''0.1.0''),
                (''serverInfo'', SERVER_INFO),
                (''capabilities'', CAPABILITIES)])"

definition handle_initialized :: "params \<Rightarrow> exception + json" where
  "handle_initialized ps = Inr JNull"

definition handle_tools_list :: "params \<Rightarrow> exception + json" where
  "handle_tools_list ps = Inr (JObj [(''tools'', TOOLS)])"

text \<open>
  \<^verbatim>\<open>not params\<close> holds for \<^verbatim>\<open>None\<close> and for the empty dictionary;
  \<^verbatim>\<open>params.get("arguments", {})\<close> is whatever value the request carries there.
\<close>

definition handle_tools_call :: "collaborators \<Rightarrow> params \<Rightarrow> exception + json" where
  "handle_tools_call C ps =
    (case ps of
       None \<Rightarrow> Inl (ValueError ''Tool name is required'')
     | Some kvs \<Rightarrow>
        (if kvs = [] then Inl (ValueError ''Tool name is required'')
         else case map_of kvs ''name'' of
           None \<Rightarrow> Inl (ValueError ''Tool name is required'')
         | Some tool_name \<Rightarrow>
            (let tool_params = (case map_of kvs ''arguments'' of None \<Rightarrow> JObj [] | Some a \<Rightarrow> a)
             in bind_exc (tool_invocation C tool_name tool_params) (invoke C))))"

definition handle_completion_complete :: "params \<Rightarrow> exception + json" where
  "handle_completion_complete ps =
     Inr (JObj [(''completion'', JObj [(''values'', JList [])])])"

definition METHOD_HANDLERS ::
  "(string \<times> (collaborators \<Rightarrow> params \<Rightarrow> exception + json)) list" where
  "METHOD_HANDLERS =
    [(''initialize'', \<lambda>C. handle_initialize),
     (''initialized'', \<lambda>C. handle_initialized),
     (''tools/list'', \<lambda>C. handle_tools_list),
     (''tools/call'', handle_tools_call),
     (''completion/complete'', \<lambda>C. handle_completion_complete)]"

section \<open>Message processing\<close>

text \<open>The body of the \<^verbatim>\<open>try\<close> block of \<^verbatim>\<open>process_message\<close>.\<close>

definition process_message_body ::
  "collaborators \<Rightarrow> JsonRpcRequest \<Rightarrow> exception + JsonRpcResponse" where
  "process_message_body C message =
    (case map_of METHOD_HANDLERS (req_method message) of
       None \<Rightarrow>
         Inr (error_response (req_id message) (- 32601)
                (''Method not found: '' @ req_method message))
     | Some handler \<Rightarrow>
         bind_exc (handler C (req_params message)) (\<lambda>result.
         Inr (result_response (req_id message) result)))"

text \<open>
  \<^verbatim>\<open>process_message\<close>: the \<^verbatim>\<open>try\<close> block with its \<^verbatim>\<open>except Exception\<close> clause.
  \<open>Inl\<close> would be an exception that leaves the function.
\<close>

definition process_message ::
  "collaborators \<Rightarrow> JsonRpcRequest \<Rightarrow> exception + JsonRpcResponse" where
  "process_message C message =
    (case process_message_body C message of
       Inr response \<Rightarrow> Inr response
     | Inl e \<Rightarrow> Inr (error_response (req_id message) (- 32603) (str_exc e)))"

section \<open>Server-sent events\<close>

text \<open>
  \<^verbatim>\<open>response.model_dump()\<close> lists the four fields in declaration order;
  \<^verbatim>\<open>model_dump(exclude_none=True)\<close> leaves out the fields whose value is \<^verbatim>\<open>None\<close>.
\<close>

definition model_dump :: "JsonRpcResponse \<Rightarrow> (string \<times> json) list" where
  "model_dump r =
    [(''jsonrpc'', JStr (resp_jsonrpc r)),
     (''id'', resp_id r),
     (''result'', resp_result r),
     (''error'', (case resp_error r of None \<Rightarrow> JNull | Some d \<Rightarrow> JObj d))]"

definition model_dump_exclude_none :: "JsonRpcResponse \<Rightarrow> (string \<times> json) list" where
  "model_dump_exclude_none r = filter (\<lambda>(k, v). v \<noteq> JNull) (model_dump r)"

text \<open>
  The library calls of \<^verbatim>\<open>sse_generator\<close> that the source does not define:
  \<open>json_loads\<close> is \<^verbatim>\<open>json.loads\<close> (\<open>Inl (JSONDecodeError m)\<close> on malformed text), and
  \<open>validation_message\<close> is the text of the error that the request model raises for data it
  rejects.
\<close>

datatype load_error = JSONDecodeError string | Other_error exception

record library =
  json_loads :: "string \<Rightarrow> load_error + json"
  validation_message :: "json \<Rightarrow> string"

text \<open>
  \<^verbatim>\<open>JsonRpcRequest(**data)\<close>: \<open>data\<close> must be a dictionary; \<open>method\<close> is required and a
  string, \<open>jsonrpc\<close> is a string when given, \<open>params\<close> is a dictionary or \<^verbatim>\<open>None\<close> when
  given, \<open>id\<close> is any value; other keys are ignored.
\<close>

definition JsonRpcRequest_of :: "library \<Rightarrow> json \<Rightarrow> exception + JsonRpcRequest" where
  "JsonRpcRequest_of L data =
    (case data of
       JObj kvs \<Rightarrow>
        (let invalid = Inl (Raised (validation_message L data)) in
         case map_of kvs ''method'' of
           Some (JStr m) \<Rightarrow>
            (case (case map_of kvs ''jsonrpc'' of
                     None \<Rightarrow> Some ''2.0'' | Some (JStr v) \<Rightarrow> Some v | Some _ \<Rightarrow> None) of
               None \<Rightarrow> invalid
             | Some v \<Rightarrow>
                (case (case map_of kvs ''params'' of
                         None \<Rightarrow> Some None | Some JNull \<Rightarrow> Some None
                       | Some (JObj d) \<Rightarrow> Some (Some d) | Some _ \<Rightarrow> None) of
                   None \<Rightarrow> invalid
                 | Some ps \<Rightarrow>
                     Inr \<lparr>req_jsonrpc = v,
                          req_id = (case map_of kvs ''id'' of None \<Rightarrow> JNull | Some i \<Rightarrow> i),
                          req_method = m, req_params = ps\<rparr>))
         | _ \<Rightarrow> invalid)
     | _ \<Rightarrow> Inl (TypeError (''JsonRpcRequest() argument after ** must be a mapping, not ''
                           @ type_name data)))"

text \<open>
  One event \<open>Data v\<close> stands for the string \<^verbatim>\<open>f"data: {json.dumps(v)}\n\n"\<close> that the
  generator yields.
\<close>

datatype sse_event = Data json

definition internal_error_event :: "exception \<Rightarrow> sse_event" where
  "internal_error_event e =
     Data (JObj (model_dump (error_response JNull (- 32603) (''Internal error: '' @ str_exc e))))"

definition sse_generator :: "library \<Rightarrow> collaborators \<Rightarrow> string \<Rightarrow> sse_event list" where
  "sse_generator L C request_body =
    (case json_loads L request_body of
       Inl (JSONDecodeError m) \<Rightarrow>
         [Data (JObj (model_dump (error_response JNull (- 32700) (''Parse error: '' @ m))))]
     | Inl (Other_error e) \<Rightarrow> [internal_error_event e]
     | Inr data \<Rightarrow>
        (case JsonRpcRequest_of L data of
           Inl e \<Rightarrow> [internal_error_event e]
         | Inr request \<Rightarrow>
            (case process_message C request of
               Inl e \<Rightarrow> [internal_error_event e]
             | Inr response \<Rightarrow> [Data (JObj (model_dump_exclude_none response))])))"

section \<open>Application lifecycle\<close>

text \<open>The objects that \<^verbatim>\<open>lifespan\<close> creates, each with the arguments of its constructor.\<close>

datatype Redis = Redis (url: string)
datatype FrameworkRegistryManager = FrameworkRegistryManager
datatype DocumentationCache = DocumentationCache (cache_redis_client: "Redis option")
datatype GitHubProvider = GitHubProvider (token: "string option")
datatype WebsiteProvider = WebsiteProvider

text \<open>The module's global instances; all are \<^verbatim>\<open>None\<close> when the module is loaded.\<close>

record globals =
  redis_client :: "Redis option"
  registry_manager :: "FrameworkRegistryManager option"
  doc_cache :: "DocumentationCache option"
  github_provider :: "GitHubProvider option"
  website_provider :: "WebsiteProvider option"

definition initial_globals :: globals where
  "initial_globals =
     \<lparr>redis_client = None, registry_manager = None, doc_cache = None,
      github_provider = None, website_provider = None\<rparr>"

text \<open>\<^verbatim>\<open>os.getenv\<close> reads the process environment.\<close>

type_synonym environ = "string \<Rightarrow> string option"

text \<open>
  What each external call of the startup raises, if anything: connecting
  (\<^verbatim>\<open>redis.from_url\<close>), \<^verbatim>\<open>ping\<close>, the constructors and the registry's
  \<^verbatim>\<open>initialize\<close>.
\<close>

record world =
  from_url_raises :: "string \<Rightarrow> exception option"
  ping_raises :: "Redis \<Rightarrow> exception option"
  FrameworkRegistryManager_raises :: "exception option"
  initialize_raises :: "exception option"
  DocumentationCache_raises :: "Redis option \<Rightarrow> exception option"
  GitHubProvider_raises :: "string option \<Rightarrow> exception option"
  WebsiteProvider_raises :: "exception option"

text \<open>What the startup does to the outside, in order: log lines and external calls.\<close>

datatype event =
    Log_info string
  | Log_warning string
  | Log_error string
  | Redis_from_url string
  | Redis_ping Redis
  | Registry_initialize

type_synonym state = "globals \<times> event list"

definition get_redis_url :: "environ \<Rightarrow> string" where
  "get_redis_url env =
     (case env ''REDIS_URL'' of None \<Rightarrow> ''redis://localhost:6379/0'' | Some v \<Rightarrow> v)"

text \<open>The inner \<^verbatim>\<open>try\<close> block: create the client, assign the global, ping.\<close>

definition connect_redis :: "world \<Rightarrow> string \<Rightarrow> state \<Rightarrow> exception option \<times> state" where
  "connect_redis W redis_url s =
    (case s of (g, tr) \<Rightarrow>
      (case from_url_raises W redis_url of
         Some e \<Rightarrow> (Some e, (g, tr @ [Redis_from_url redis_url]))
       | None \<Rightarrow>
          (let g1 = g\<lparr>redis_client := Some (Redis redis_url)\<rparr>;
               tr1 = tr @ [Redis_from_url redis_url, Redis_ping (Redis redis_url)]
           in case ping_raises W (Redis redis_url) of
                Some e \<Rightarrow> (Some e, (g1, tr1))
              | None \<Rightarrow> (None, (g1, tr1 @ [Log_info ''Connected to Redis'']))))) "

text \<open>The Redis part of the startup, with the inner \<^verbatim>\<open>except Exception\<close> clause.\<close>

definition initialize_redis :: "world \<Rightarrow> environ \<Rightarrow> state \<Rightarrow> state" where
  "initialize_redis W env s =
    (let redis_url = get_redis_url env in
     if redis_url \<noteq> ''redis://localhost:6379/0'' then
       (case connect_redis W redis_url s of
          (None, s1) \<Rightarrow> s1
        | (Some e, (g1, tr1)) \<Rightarrow>
            (g1\<lparr>redis_client := None\<rparr>,
             tr1 @ [Log_warning (''Could not connect to Redis: '' @ str_exc e
                                 @ '', continuing without Redis'')]))
     else s)"

text \<open>The registry, the cache and the providers, up to the success log line.\<close>

definition initialize_registry_and_providers ::
  "world \<Rightarrow> environ \<Rightarrow> state \<Rightarrow> exception option \<times> state" where
  "initialize_registry_and_providers W env s =
    (case s of (g, tr) \<Rightarrow>
      (case FrameworkRegistryManager_raises W of
         Some e \<Rightarrow> (Some e, (g, tr))
       | None \<Rightarrow>
      (let g1 = g\<lparr>registry_manager := Some FrameworkRegistryManager\<rparr>;
           tr1 = tr @ [Registry_initialize] in
       case initialize_raises W of
         Some e \<Rightarrow> (Some e, (g1, tr1))
       | None \<Rightarrow>
      (case DocumentationCache_raises W (redis_client g1) of
         Some e \<Rightarrow> (Some e, (g1, tr1))
       | None \<Rightarrow>
      (let g2 = g1\<lparr>doc_cache := Some (DocumentationCache (redis_client g1))\<rparr>;
           github_token = env ''GITHUB_TOKEN'' in
       case GitHubProvider_raises W github_token of
         Some e \<Rightarrow> (Some e, (g2, tr1))
       | None \<Rightarrow>
      (let g3 = g2\<lparr>github_provider := Some (GitHubProvider github_token)\<rparr> in
       case WebsiteProvider_raises W of
         Some e \<Rightarrow> (Some e, (g3, tr1))
       | None \<Rightarrow>
           (None, (g3\<lparr>website_provider := Some WebsiteProvider\<rparr>,
                   tr1 @ [Log_info ''MCP Web Server initialized successfully''])))))))) "

text \<open>
  \<^verbatim>\<open>lifespan\<close> up to its \<^verbatim>\<open>yield\<close>: either the \<^verbatim>\<open>yield\<close> is reached and the
  application starts serving, or the exception leaves the function after the error log
  line of the outer \<^verbatim>\<open>except Exception\<close> clause.
\<close>

datatype outcome = Yielded | Raises exception

definition lifespan :: "world \<Rightarrow> environ \<Rightarrow> globals \<Rightarrow> outcome \<times> state" where
  "lifespan W env g =
    (let s0 = (g, [Log_info ''Starting MCP Web Server'']);
         s1 = initialize_redis W env s0
     in case initialize_registry_and_providers W env s1 of
          (None, s2) \<Rightarrow> (Yielded, s2)
        | (Some e, (g2, tr2)) \<Rightarrow>
            (Raises e,
             (g2, tr2 @ [Log_error (''Failed to initialize server: '' @ str_exc e)])))"

section \<open>Documentation cache and refresh coordinator\<close>

text \<open>
  The cache (\<^verbatim>\<open>registry/cache.py\<close>) and the refresh logic behind the documentation tools
  are not among the source files at hand; every definition of this section follows the
  specification's data model and component design instead.
\<close>

text \<open>Modelled from the spec: the cache key and the cache entry of the data model (the
  cache module is missing). A key is a framework name, a section or pattern, and a kind;
  an entry holds content, origin metadata, the fetch time and a time to live.\<close>

datatype kind = Docs | Examples

type_synonym CacheKey = "string \<times> string option \<times> kind"

record CacheEntry =
  content :: string
  originMetadata :: string
  fetchedAt :: int
  ttl :: "nat option"

text \<open>Modelled from the spec: the staleness test of the Tiered Cache Store (the cache
  module is missing). An entry is stale when \<open>now - fetchedAt > ttl\<close>; an entry whose
  \<open>ttl\<close> is 0 or missing is always stale.\<close>

definition isStale :: "CacheEntry \<Rightarrow> int \<Rightarrow> bool" where
  "isStale entry now =
     (case ttl entry of None \<Rightarrow> True | Some t \<Rightarrow> t = 0 \<or> now - fetchedAt entry > int t)"

text \<open>Modelled from the spec: the two tiers of the Tiered Cache Store (the cache module
  is missing): a local tier and an optional remote tier, \<open>None\<close> when no remote is
  configured.\<close>

record TieredStore =
  local_tier :: "CacheKey \<rightharpoonup> CacheEntry"
  remote_tier :: "(CacheKey \<rightharpoonup> CacheEntry) option"

text \<open>Modelled from the spec: an expired entry is treated as absent (the cache module is
  missing).\<close>

definition live :: "CacheEntry option \<Rightarrow> int \<Rightarrow> CacheEntry option" where
  "live e now = (case e of None \<Rightarrow> None | Some x \<Rightarrow> if isStale x now then None else Some x)"

text \<open>Modelled from the spec: what the remote tier holds for a key (the cache module is
  missing). The flag \<open>remote_ok\<close> says whether the remote tier answers this call; a remote
  error is swallowed and reads as absent.\<close>

definition remote_lookup :: "TieredStore \<Rightarrow> CacheKey \<Rightarrow> bool \<Rightarrow> CacheEntry option" where
  "remote_lookup st key remote_ok =
     (case remote_tier st of None \<Rightarrow> None | Some r \<Rightarrow> if remote_ok then r key else None)"

text \<open>Modelled from the spec: the eviction of an entry from the local tier (the cache
  module is missing), and the eviction on TTL expiry that a lookup performs: an expired
  local entry is removed when it is looked up.\<close>

definition evict :: "TieredStore \<Rightarrow> CacheKey \<Rightarrow> TieredStore" where
  "evict st key = st\<lparr>local_tier := (local_tier st)(key := None)\<rparr>"

definition evict_expired :: "TieredStore \<Rightarrow> CacheKey \<Rightarrow> int \<Rightarrow> TieredStore" where
  "evict_expired st key now =
     (case local_tier st key of
        None \<Rightarrow> st
      | Some e \<Rightarrow> if isStale e now then evict st key else st)"

text \<open>Modelled from the spec: \<open>get(key)\<close> of the Tiered Cache Store (the cache module is
  missing). The local tier is checked first, and an expired local entry is evicted by the
  lookup; on a miss the remote tier is checked, if configured; a remote hit backfills the
  local tier; expired entries are absent in either tier.\<close>

definition store_get ::
  "TieredStore \<Rightarrow> CacheKey \<Rightarrow> bool \<Rightarrow> int \<Rightarrow> CacheEntry option \<times> TieredStore" where
  "store_get st key remote_ok now =
    (let st1 = evict_expired st key now in
     case local_tier st1 key of
       Some e \<Rightarrow> (Some e, st1)
     | None \<Rightarrow>
        (case live (remote_lookup st1 key remote_ok) now of
           Some e \<Rightarrow> (Some e, st1\<lparr>local_tier := (local_tier st1)(key \<mapsto> e)\<rparr>)
         | None \<Rightarrow> (None, st1)))"

text \<open>Modelled from the spec: \<open>put(key, entry)\<close> of the Tiered Cache Store (the cache
  module is missing). The local tier is written; the remote tier is written when it is
  configured and answers, and its failure is swallowed.\<close>

definition store_put :: "TieredStore \<Rightarrow> CacheKey \<Rightarrow> CacheEntry \<Rightarrow> bool \<Rightarrow> TieredStore" where
  "store_put st key entry remote_ok =
     st\<lparr>local_tier := (local_tier st)(key \<mapsto> entry),
        remote_tier := (case remote_tier st of
                          None \<Rightarrow> None
                        | Some r \<Rightarrow> Some (if remote_ok then r(key \<mapsto> entry) else r))\<rparr>"

text \<open>Modelled from the spec: the prior entry that the serve-stale-on-error policy falls
  back to (the cache module is missing): whatever a tier still holds for the key, stale or
  not, the local tier first.\<close>

definition prior_entry :: "TieredStore \<Rightarrow> CacheKey \<Rightarrow> bool \<Rightarrow> CacheEntry option" where
  "prior_entry st key remote_ok =
     (case local_tier st key of Some e \<Rightarrow> Some e | None \<Rightarrow> remote_lookup st key remote_ok)"

text \<open>Modelled from the spec: the process-wide counters of the data model (the
  coordinator is missing).\<close>

record CacheStatistics =
  hits :: nat
  misses :: nat
  fetch_failures :: nat
  last_refresh :: "string \<rightharpoonup> int"

text \<open>Modelled from the spec: what a caller of \<open>getOrRefresh\<close> receives, an entry or
  the failure (the coordinator is missing).\<close>

datatype outcome_of_call = Entry CacheEntry | Failure string

text \<open>Modelled from the spec: what the Content Provider answers, content with origin
  metadata or a failure (the providers are missing).\<close>

datatype fetch_result = Fetched string string | FetchFailed string

type_synonym caller = nat

text \<open>Modelled from the spec: the coordinator's state (the coordinator is missing).
  \<open>tickets\<close> maps a key to its \<open>RefreshTicket\<close>, the callers
  waiting for the fetch in flight. \<open>pending\<close> holds the callers whose cache read is over
  without a hit and who have not reached the ticket check yet, each with its key.
  \<open>provider_calls\<close> counts the invocations of the Content Provider per key and
  \<open>in_flight\<close> those not yet completed; \<open>received\<close> records what each caller got back.
\<close>

record Coordinator =
  store :: TieredStore
  tickets :: "CacheKey \<rightharpoonup> caller list"
  pending :: "caller \<rightharpoonup> CacheKey"
  statistics :: CacheStatistics
  default_ttl :: "kind \<Rightarrow> nat"
  provider_calls :: "CacheKey \<Rightarrow> nat"
  in_flight :: "CacheKey \<Rightarrow> nat"
  received :: "caller \<rightharpoonup> outcome_of_call"

text \<open>Modelled from the spec: steps 1 and 2 of \<open>getOrRefresh\<close> of the
  Freshness/Refresh Coordinator (the coordinator is missing). With \<open>useCache\<close> false or
  \<open>forceRefresh\<close> true the cache read is skipped; otherwise the store is read, and a
  present and not stale entry is a hit that is returned at once. Without a hit the caller
  goes on to step 3. The read may consult the remote tier, which is a suspension point,
  so other callers' steps can come between this step and the caller's step 3.\<close>

definition getOrRefresh_lookup ::
  "caller \<Rightarrow> CacheKey \<Rightarrow> string \<Rightarrow> bool \<Rightarrow> bool \<Rightarrow> bool \<Rightarrow> int \<Rightarrow> Coordinator \<Rightarrow> Coordinator" where
  "getOrRefresh_lookup c key sourceDescriptor forceRefresh useCache remote_ok now s =
    (case (if \<not> useCache \<or> forceRefresh then (None, store s)
           else store_get (store s) key remote_ok now) of
      (cached, st) \<Rightarrow>
       (case (case cached of None \<Rightarrow> None
                           | Some e \<Rightarrow> if isStale e now then None else Some e) of
          Some e \<Rightarrow>
            s\<lparr>store := st,
              statistics := (statistics s)\<lparr>hits := hits (statistics s) + 1\<rparr>,
              received := (received s)(c \<mapsto> Entry e)\<rparr>
        | None \<Rightarrow>
            s\<lparr>store := st, pending := (pending s)(c \<mapsto> key)\<rparr>))"

text \<open>Modelled from the spec: step 3 of \<open>getOrRefresh\<close> up to the point where the caller
  waits for the fetch (the coordinator is missing). A miss is recorded. The check for a
  ticket and its creation are one atomic step: the caller attaches to the key's ticket
  or, when there is none, creates it and invokes the Content Provider. A caller that is
  not between its cache read and its ticket check has no such step.\<close>

definition getOrRefresh_ticket :: "caller \<Rightarrow> Coordinator \<Rightarrow> Coordinator" where
  "getOrRefresh_ticket c s =
    (case pending s c of
       None \<Rightarrow> s
     | Some key \<Rightarrow>
        (let s1 = s\<lparr>pending := (pending s)(c := None),
                    statistics := (statistics s)\<lparr>misses := misses (statistics s) + 1\<rparr>\<rparr>
         in case tickets s key of
              Some waiters \<Rightarrow> s1\<lparr>tickets := (tickets s)(key \<mapsto> waiters @ [c])\<rparr>
            | None \<Rightarrow>
                s1\<lparr>tickets := (tickets s)(key \<mapsto> [c]),
                   provider_calls := (provider_calls s)(key := provider_calls s key + 1),
                   in_flight := (in_flight s)(key := in_flight s key + 1)\<rparr>))"

text \<open>Modelled from the spec: resolving a ticket is a broadcast, every waiter receives
  the same outcome (the coordinator is missing).\<close>

definition deliver ::
  "caller list \<Rightarrow> outcome_of_call \<Rightarrow> (caller \<rightharpoonup> outcome_of_call) \<Rightarrow> (caller \<rightharpoonup> outcome_of_call)" where
  "deliver waiters out rcv = (\<lambda>c. if c \<in> set waiters then Some out else rcv c)"

text \<open>Modelled from the spec: the completion of the fetch in flight for a key, the rest of
  step 3 of \<open>getOrRefresh\<close> (the coordinator is missing). On success an entry is built and
  put into the store, every waiter receives it and the last-refresh time is set. On
  failure the failure count goes up, nothing is written, and every waiter receives the
  prior entry if there is one and the failure otherwise. The ticket is destroyed in both
  cases.\<close>

definition getOrRefresh_finish ::
  "CacheKey \<Rightarrow> fetch_result \<Rightarrow> bool \<Rightarrow> int \<Rightarrow> Coordinator \<Rightarrow> Coordinator" where
  "getOrRefresh_finish key r remote_ok now s =
    (case tickets s key of
       None \<Rightarrow> s
     | Some waiters \<Rightarrow>
        (let done = s\<lparr>tickets := (tickets s)(key := None),
                       in_flight := (in_flight s)(key := in_flight s key - 1)\<rparr>
         in case r of
              Fetched c m \<Rightarrow>
               (let entry = \<lparr>content = c, originMetadata = m, fetchedAt = now,
                             ttl = Some (default_ttl s (snd (snd key)))\<rparr>
                in done\<lparr>store := store_put (store s) key entry remote_ok,
                        received := deliver waiters (Entry entry) (received s),
                        statistics := (statistics s)
                          \<lparr>last_refresh := (last_refresh (statistics s))(fst key \<mapsto> now)\<rparr>\<rparr>)
            | FetchFailed err \<Rightarrow>
               (let out = (case prior_entry (store s) key remote_ok of
                             Some e \<Rightarrow> Entry e | None \<Rightarrow> Failure err)
                in done\<lparr>received := deliver waiters out (received s),
                        statistics := (statistics s)
                          \<lparr>fetch_failures := fetch_failures (statistics s) + 1\<rparr>\<rparr>)))"

text \<open>Modelled from the spec: the concurrency model (the coordinator is missing).
  Concurrent callers interleave at these steps: a caller's cache read (\<open>Lookup\<close>), a
  caller's atomic ticket check (\<open>Ticket\<close>), the completion of the fetch in flight for a
  key (\<open>Completion\<close>), and the eviction of a local entry under size pressure
  (\<open>Eviction\<close>). A run is a sequence of such steps.\<close>

datatype coordinator_event =
    Lookup caller CacheKey string bool bool bool int
  | Ticket caller
  | Completion CacheKey fetch_result bool int
  | Eviction CacheKey

fun step :: "Coordinator \<Rightarrow> coordinator_event \<Rightarrow> Coordinator" where
  "step s (Lookup c key d f u ok now) = getOrRefresh_lookup c key d f u ok now s"
| "step s (Ticket c) = getOrRefresh_ticket c s"
| "step s (Completion key r ok now) = getOrRefresh_finish key r ok now s"
| "step s (Eviction key) = s\<lparr>store := evict (store s) key\<rparr>"

definition run :: "Coordinator \<Rightarrow> coordinator_event list \<Rightarrow> Coordinator" where
  "run s evs = foldl step s evs"

text \<open>The event completes the fetch for the key.\<close>

fun completes :: "CacheKey \<Rightarrow> coordinator_event \<Rightarrow> bool" where
  "completes key (Completion k r ok now) = (k = key)"
| "completes key e = False"

text \<open>The event is a cache read of the caller.\<close>

fun lookup_by :: "caller \<Rightarrow> coordinator_event \<Rightarrow> bool" where
  "lookup_by c (Lookup c' key d f u ok now) = (c' = c)"
| "lookup_by c e = False"

text \<open>The callers that pass the ticket check for the key during a run, in order.\<close>

fun attached :: "CacheKey \<Rightarrow> Coordinator \<Rightarrow> coordinator_event list \<Rightarrow> caller list" where
  "attached key s [] = []"
| "attached key s (e # evs) =
     (case e of
        Ticket c \<Rightarrow> if pending s c = Some key then [c] else []
      | _ \<Rightarrow> [])
     @ attached key (step s e) evs"

text \<open>Modelled from the spec: the coordinator at process start, with empty tiers, no
  ticket and zeroed counters (the coordinator is missing).\<close>

definition initial_coordinator ::
  "(CacheKey \<rightharpoonup> CacheEntry) option \<Rightarrow> (kind \<Rightarrow> nat) \<Rightarrow> Coordinator" where
  "initial_coordinator remote ttls =
     \<lparr>store = \<lparr>local_tier = Map.empty, remote_tier = remote\<rparr>,
      tickets = Map.empty,
      pending = Map.empty,
      statistics = \<lparr>hits = 0, misses = 0, fetch_failures = 0, last_refresh = Map.empty\<rparr>,
      default_ttl = ttls,
      provider_calls = (\<lambda>k. 0),
      in_flight = (\<lambda>k. 0),
      received = Map.empty\<rparr>"

text \<open>No tier holds an entry for the key, stale or not.\<close>

definition absent :: "TieredStore \<Rightarrow> CacheKey \<Rightarrow> bool" where
  "absent st key =
     (local_tier st key = None \<and> (case remote_tier st of None \<Rightarrow> True | Some r \<Rightarrow> r key = None))"

section \<open>Example inputs\<close>

text \<open>Tool implementations that always fail, as when a fetch cannot produce any content.\<close>

definition failing_tools :: collaborators where
  "failing_tools = \<lparr>invoke = (\<lambda>c. Inl (Raised ''fetch failed'')), py_str = (\<lambda>v. ''?'')\<rparr>"

text \<open>Tool implementations that return the arguments they were called with.\<close>

definition echo_tools :: collaborators where
  "echo_tools =
     \<lparr>invoke = (\<lambda>c. case c of
          Get_framework_docs f s u \<Rightarrow> Inr (JList [f, s, u])
        | Search_documentation f q l \<Rightarrow> Inr (JList [f, q, l])
        | _ \<Rightarrow> Inr JNull),
      py_str = (\<lambda>v. ''?'')\<rparr>"

definition docs_request :: JsonRpcRequest where
  "docs_request =
     \<lparr>req_jsonrpc = ''2.0'', req_id = JInt 7, req_method = ''tools/call'',
      req_params = Some [(''name'', JStr ''get_framework_docs''),
                         (''arguments'', JObj [(''framework'', JStr ''react'')])]\<rparr>"

text \<open>A parser that reads every body as an \<open>initialized\<close> request with id 1.\<close>

definition initialized_library :: library where
  "initialized_library =
     \<lparr>json_loads = (\<lambda>s. Inr (JObj [(''jsonrpc'', JStr ''2.0''), (''id'', JInt 1),
                                     (''method'', JStr ''initialized'')])),
      validation_message = (\<lambda>v. ''invalid'')\<rparr>"

text \<open>Three worlds: Redis accepts the client but refuses the ping; the registry catalog
  fails to load; everything answers.\<close>

definition unreachable_redis :: world where
  "unreachable_redis =
     \<lparr>from_url_raises = (\<lambda>u. None),
      ping_raises = (\<lambda>c. Some (Raised ''Connection refused'')),
      FrameworkRegistryManager_raises = None,
      initialize_raises = None,
      DocumentationCache_raises = (\<lambda>c. None),
      GitHubProvider_raises = (\<lambda>t. None),
      WebsiteProvider_raises = None\<rparr>"

definition broken_registry :: world where
  "broken_registry =
     \<lparr>from_url_raises = (\<lambda>u. None),
      ping_raises = (\<lambda>c. None),
      FrameworkRegistryManager_raises = None,
      initialize_raises = Some (Raised ''catalog is empty''),
      DocumentationCache_raises = (\<lambda>c. None),
      GitHubProvider_raises = (\<lambda>t. None),
      WebsiteProvider_raises = None\<rparr>"

definition reachable_redis :: world where
  "reachable_redis =
     \<lparr>from_url_raises = (\<lambda>u. None),
      ping_raises = (\<lambda>c. None),
      FrameworkRegistryManager_raises = None,
      initialize_raises = None,
      DocumentationCache_raises = (\<lambda>c. None),
      GitHubProvider_raises = (\<lambda>t. None),
      WebsiteProvider_raises = None\<rparr>"

definition remote_env :: environ where
  "remote_env = (\<lambda>k. if k = ''REDIS_URL'' then Some ''redis://cache:6379/0'' else None)"

definition default_env :: environ where
  "default_env = (\<lambda>k. if k = ''REDIS_URL'' then Some ''redis://localhost:6379/0'' else None)"

text \<open>The tool names that the \<^verbatim>\<open>elif\<close> chain of \<^verbatim>\<open>handle_tools_call\<close> tests for.\<close>

definition dispatched_tool_names :: "string list" where
  "dispatched_tool_names =
    [''list_available_frameworks'', ''search_frameworks'', ''get_framework_info'',
     ''get_framework_docs'', ''get_framework_examples'', ''search_documentation'',
     ''get_framework_context'', ''analyze_code_compatibility'', ''check_framework_updates'',
     ''refresh_framework_cache'', ''get_cache_stats'', ''get_registry_stats'']"

text \<open>Inputs for the coordinator: a cold cache with a remote tier; three calls on one
  key that all reach the ticket check before any fetch completes, interleaved with a call
  on another key; two calls on one key of which the second reaches the ticket check after
  the first one's fetch has failed; and a cache that holds an expired entry.\<close>

definition react_docs :: CacheKey where
  "react_docs = (''react'', None, Docs)"

definition vue_docs :: CacheKey where
  "vue_docs = (''vue'', None, Docs)"

definition cold_coordinator :: Coordinator where
  "cold_coordinator = initial_coordinator (Some Map.empty) (\<lambda>k. 86400)"

definition three_calls :: "coordinator_event list" where
  "three_calls =
     [Lookup 1 react_docs ''github:facebook/react'' False True True 10,
      Lookup 2 react_docs ''github:facebook/react'' False True True 11,
      Ticket 1,
      Lookup 9 vue_docs ''github:vuejs/core'' False True True 11,
      Lookup 3 react_docs ''github:facebook/react'' True False True 12,
      Ticket 3,
      Ticket 9,
      Ticket 2]"

definition late_ticket :: "coordinator_event list" where
  "late_ticket =
     [Lookup 1 react_docs ''github:facebook/react'' False True True 10,
      Lookup 2 react_docs ''github:facebook/react'' False True True 11,
      Ticket 1,
      Completion react_docs (FetchFailed ''timeout'') True 20,
      Ticket 2,
      Completion react_docs (Fetched ''docs'' ''github'') True 30]"





section \<open>Message processing: lemmas\<close>

lemma map_of_METHOD_HANDLERS_None:
  "m \<notin> {''initialize'', ''initialized'', ''tools/list'', ''tools/call'', ''completion/complete''}
   \<Longrightarrow> map_of METHOD_HANDLERS m = None"
  by (simp add: METHOD_HANDLERS_def)

lemma map_of_METHOD_HANDLERS_tools_call:
  "map_of METHOD_HANDLERS ''tools/call'' = Some handle_tools_call"
  by (simp add: METHOD_HANDLERS_def)

lemma map_of_METHOD_HANDLERS_initialized:
  "map_of METHOD_HANDLERS ''initialized'' = Some (\<lambda>C. handle_initialized)"
  by (simp add: METHOD_HANDLERS_def)

lemma process_message_handler_raises:
  "map_of METHOD_HANDLERS (req_method message) = Some h \<Longrightarrow> h C (req_params message) = Inl e
   \<Longrightarrow> process_message C message = Inr (error_response (req_id message) (- 32603) (str_exc e))"
  by (simp add: process_message_def process_message_body_def bind_exc_def)

lemma process_message_handler_returns:
  "map_of METHOD_HANDLERS (req_method message) = Some h \<Longrightarrow> h C (req_params message) = Inr v
   \<Longrightarrow> process_message C message = Inr (result_response (req_id message) v)"
  by (simp add: process_message_def process_message_body_def bind_exc_def)

lemma process_message_no_handler:
  "map_of METHOD_HANDLERS (req_method message) = None
   \<Longrightarrow> process_message C message =
       Inr (error_response (req_id message) (- 32601) (''Method not found: '' @ req_method message))"
  by (simp add: process_message_def process_message_body_def)

lemma process_message_returns:
  "\<exists>r. process_message C message = Inr r \<and> resp_id r = req_id message"
  by (simp add: process_message_def error_response_def result_response_def
      process_message_body_def bind_exc_def split: sum.splits option.splits)

lemma process_message_initialized:
  "req_method request = ''initialized''
   \<Longrightarrow> process_message C request = Inr (result_response (req_id request) JNull)"
  using process_message_handler_returns [of request "\<lambda>C. handle_initialized" C JNull]
  by (simp add: map_of_METHOD_HANDLERS_initialized handle_initialized_def)

lemma error_code_error_response [simp]: "error_code (error_response i c m) = Some (JInt c)"
  by (simp add: error_code_def error_response_def)

lemma tool_invocation_unknown:
  "tool_name \<notin> JStr ` set dispatched_tool_names
   \<Longrightarrow> tool_invocation C tool_name tool_params
       = Inl (ValueError (''Unknown tool: '' @ format_value C tool_name))"
  by (simp add: tool_invocation_def dispatched_tool_names_def)

lemma handle_tools_call_no_name:
  "(\<forall>kvs. ps = Some kvs \<longrightarrow> map_of kvs ''name'' = None)
   \<Longrightarrow> handle_tools_call C ps = Inl (ValueError ''Tool name is required'')"
  by (cases ps) (simp_all add: handle_tools_call_def)

lemma handle_tools_call_named:
  "map_of kvs ''name'' = Some n
   \<Longrightarrow> handle_tools_call C (Some kvs)
       = bind_exc (tool_invocation C n
                    (case map_of kvs ''arguments'' of None \<Rightarrow> JObj [] | Some a \<Rightarrow> a))
           (invoke C)"
  by (cases kvs) (simp_all add: handle_tools_call_def)

lemma handle_tools_call_unknown:
  "map_of kvs ''name'' = Some n \<Longrightarrow> n \<notin> JStr ` set dispatched_tool_names
   \<Longrightarrow> handle_tools_call C (Some kvs) = Inl (ValueError (''Unknown tool: '' @ format_value C n))"
  by (simp add: handle_tools_call_named tool_invocation_unknown bind_exc_def)

section \<open>Message processing: theorems\<close>

text \<open>
  C5. For every tool call whose handler raises an exception (including a fetch that
  cannot produce any content), the JSON-RPC response returned by \<open>process_message\<close>
  carries an explicit error object, with code -32603 and the exception's message, and no
  result: the result field is \<open>None\<close> and is absent from the serialized response. A
  failing call is never answered with an empty success.
\<close>

theorem tools_call_exception_is_error_response:
  assumes "req_method message = ''tools/call''"
    and "handle_tools_call C (req_params message) = Inl e"
  shows "\<exists>r. process_message C message = Inr r
           \<and> resp_error r = Some [(''code'', JInt (- 32603)), (''message'', JStr (str_exc e))]
           \<and> resp_result r = JNull
           \<and> resp_id r = req_id message
           \<and> map_of (model_dump_exclude_none r) ''result'' = None
           \<and> map_of (model_dump_exclude_none r) ''error''
               = Some (JObj [(''code'', JInt (- 32603)), (''message'', JStr (str_exc e))])"
  using process_message_handler_raises [of message handle_tools_call C e] assms
  by (simp add: map_of_METHOD_HANDLERS_tools_call error_response_def
      model_dump_exclude_none_def model_dump_def)

theorem tools_call_exception_is_error_response_witness:
  "\<exists>r. process_message failing_tools docs_request = Inr r
     \<and> resp_error r = Some [(''code'', JInt (- 32603)), (''message'', JStr ''fetch failed'')]
     \<and> resp_result r = JNull
     \<and> resp_id r = JInt 7
     \<and> map_of (model_dump_exclude_none r) ''result'' = None"
proof -
  have m: "req_method docs_request = ''tools/call''"
    by (simp add: docs_request_def)
  have h: "handle_tools_call failing_tools (req_params docs_request) = Inl (Raised ''fetch failed'')"
    by (simp add: docs_request_def handle_tools_call_def tool_invocation_def bind_exc_def
        failing_tools_def)
  show ?thesis
    using tools_call_exception_is_error_response [OF m h] by (auto simp: docs_request_def)
qed

text \<open>
  C6. For every \<open>get_framework_docs\<close> tool call whose arguments omit \<open>use_cache\<close>, the
  dispatcher invokes the documentation operation with \<open>use_cache\<close> equal to \<open>True\<close>, and
  with \<open>section\<close> equal to \<open>None\<close> when \<open>section\<close> is omitted. (When the arguments lack
  \<open>framework\<close>, evaluating the first keyword argument raises \<open>KeyError\<close> and no operation
  is invoked.)
\<close>

theorem get_framework_docs_use_cache_default:
  assumes "map_of kvs ''name'' = Some (JStr ''get_framework_docs'')"
    and "(case map_of kvs ''arguments'' of None \<Rightarrow> JObj [] | Some a \<Rightarrow> a) = JObj args"
    and "map_of args ''use_cache'' = None"
  shows "tool_invocation C (JStr ''get_framework_docs'') (JObj args)
           = (case map_of args ''framework'' of
                None \<Rightarrow> Inl (KeyError ''framework'')
              | Some f \<Rightarrow>
                  Inr (Get_framework_docs f
                         (case map_of args ''section'' of None \<Rightarrow> JNull | Some s \<Rightarrow> s)
                         (JBool True)))
         \<and> handle_tools_call C (Some kvs)
           = (case map_of args ''framework'' of
                None \<Rightarrow> Inl (KeyError ''framework'')
              | Some f \<Rightarrow>
                  invoke C (Get_framework_docs f
                              (case map_of args ''section'' of None \<Rightarrow> JNull | Some s \<Rightarrow> s)
                              (JBool True)))"
  using assms
  by (simp add: handle_tools_call_named tool_invocation_def bind_exc_def split: option.splits)

theorem get_framework_docs_use_cache_default_witness:
  "handle_tools_call echo_tools
     (Some [(''name'', JStr ''get_framework_docs''),
            (''arguments'', JObj [(''framework'', JStr ''react'')])])
     = Inr (JList [JStr ''react'', JNull, JBool True])
   \<and> tool_invocation echo_tools (JStr ''get_framework_docs'') (JObj [(''framework'', JStr ''react'')])
     = Inr (Get_framework_docs (JStr ''react'') JNull (JBool True))"
  using get_framework_docs_use_cache_default
          [of "[(''name'', JStr ''get_framework_docs''),
                (''arguments'', JObj [(''framework'', JStr ''react'')])]"
              "[(''framework'', JStr ''react'')]" echo_tools]
  by (simp add: echo_tools_def)

text \<open>
  C7. For every \<open>search_documentation\<close> tool call whose arguments omit \<open>limit\<close>, the
  dispatcher invokes the search operation with \<open>limit\<close> equal to 10. (When the arguments
  lack \<open>framework\<close> or \<open>query\<close>, evaluating that keyword argument raises \<open>KeyError\<close> and
  no operation is invoked.)
\<close>

theorem search_documentation_limit_default:
  assumes "map_of kvs ''name'' = Some (JStr ''search_documentation'')"
    and "(case map_of kvs ''arguments'' of None \<Rightarrow> JObj [] | Some a \<Rightarrow> a) = JObj args"
    and "map_of args ''limit'' = None"
  shows "tool_invocation C (JStr ''search_documentation'') (JObj args)
           = (case map_of args ''framework'' of
                None \<Rightarrow> Inl (KeyError ''framework'')
              | Some f \<Rightarrow>
                 (case map_of args ''query'' of
                    None \<Rightarrow> Inl (KeyError ''query'')
                  | Some q \<Rightarrow> Inr (Search_documentation f q (JInt 10))))
         \<and> handle_tools_call C (Some kvs)
           = (case map_of args ''framework'' of
                None \<Rightarrow> Inl (KeyError ''framework'')
              | Some f \<Rightarrow>
                 (case map_of args ''query'' of
                    None \<Rightarrow> Inl (KeyError ''query'')
                  | Some q \<Rightarrow> invoke C (Search_documentation f q (JInt 10))))"
  using assms
  by (simp add: handle_tools_call_named tool_invocation_def bind_exc_def split: option.splits)

theorem search_documentation_limit_default_witness:
  "handle_tools_call echo_tools
     (Some [(''name'', JStr ''search_documentation''),
            (''arguments'', JObj [(''framework'', JStr ''react''), (''query'', JStr ''hooks'')])])
     = Inr (JList [JStr ''react'', JStr ''hooks'', JInt 10])"
  using search_documentation_limit_default
          [of "[(''name'', JStr ''search_documentation''),
                (''arguments'', JObj [(''framework'', JStr ''react''), (''query'', JStr ''hooks'')])]"
              "[(''framework'', JStr ''react''), (''query'', JStr ''hooks'')]" echo_tools]
  by (simp add: echo_tools_def)

text \<open>
  C9. \<open>process_message\<close> is total over JSON-RPC requests: for every request it returns a
  response that echoes the request's id, and no exception leaves it. A method name outside
  the five registered handlers yields error code -32601. Any exception of a handler
  yields error code -32603 and not -32601; in particular a \<open>tools/call\<close> request with a
  missing tool name or with an unknown tool name.
\<close>

theorem process_message_total:
  "\<exists>r. process_message C message = Inr r \<and> resp_id r = req_id message
     \<and> (req_method message \<notin> {''initialize'', ''initialized'', ''tools/list'', ''tools/call'',
                                ''completion/complete''}
          \<longrightarrow> error_code r = Some (JInt (- 32601)))
     \<and> (\<forall>h e. map_of METHOD_HANDLERS (req_method message) = Some h
                \<and> h C (req_params message) = Inl e
          \<longrightarrow> r = error_response (req_id message) (- 32603) (str_exc e)
              \<and> error_code r = Some (JInt (- 32603))
              \<and> error_code r \<noteq> Some (JInt (- 32601)))
     \<and> (req_method message = ''tools/call''
          \<and> (\<forall>kvs. req_params message = Some kvs \<longrightarrow> map_of kvs ''name'' = None)
          \<longrightarrow> r = error_response (req_id message) (- 32603) ''Tool name is required'')
     \<and> (\<forall>kvs n. req_method message = ''tools/call'' \<and> req_params message = Some kvs
                \<and> map_of kvs ''name'' = Some n \<and> n \<notin> JStr ` set dispatched_tool_names
          \<longrightarrow> r = error_response (req_id message) (- 32603)
                    (''Unknown tool: '' @ format_value C n))"
proof -
  obtain r where r: "process_message C message = Inr r" "resp_id r = req_id message"
    using process_message_returns by blast
  have a: "error_code r = Some (JInt (- 32601))"
    if "req_method message \<notin> {''initialize'', ''initialized'', ''tools/list'', ''tools/call'',
                                ''completion/complete''}"
    using process_message_no_handler [OF map_of_METHOD_HANDLERS_None [OF that], of C] r by simp
  have b: "r = error_response (req_id message) (- 32603) (str_exc e)"
    if "map_of METHOD_HANDLERS (req_method message) = Some h" "h C (req_params message) = Inl e"
    for h e
    using process_message_handler_raises [OF that] r by simp
  have b': "error_code r = Some (JInt (- 32603)) \<and> error_code r \<noteq> Some (JInt (- 32601))"
    if "map_of METHOD_HANDLERS (req_method message) = Some h" "h C (req_params message) = Inl e"
    for h e
    using b [OF that] by simp
  have c: "r = error_response (req_id message) (- 32603) ''Tool name is required''"
    if "req_method message = ''tools/call''"
      "\<forall>kvs. req_params message = Some kvs \<longrightarrow> map_of kvs ''name'' = None"
    using b [of handle_tools_call "ValueError ''Tool name is required''"]
      handle_tools_call_no_name [OF that(2), of C] that(1)
    by (simp add: map_of_METHOD_HANDLERS_tools_call)
  have d: "r = error_response (req_id message) (- 32603) (''Unknown tool: '' @ format_value C n)"
    if "req_method message = ''tools/call''" "req_params message = Some kvs"
      "map_of kvs ''name'' = Some n" "n \<notin> JStr ` set dispatched_tool_names"
    for kvs n
    using b [of handle_tools_call "ValueError (''Unknown tool: '' @ format_value C n)"]
      handle_tools_call_unknown [OF that(3) that(4), of C] that(1) that(2)
    by (simp add: map_of_METHOD_HANDLERS_tools_call)
  show ?thesis
    using r a b b' c d by blast
qed

theorem process_message_total_witness:
  "(\<exists>r. process_message echo_tools
          \<lparr>req_jsonrpc = ''2.0'', req_id = JInt 1, req_method = ''resources/list'',
           req_params = None\<rparr> = Inr r
        \<and> resp_id r = JInt 1 \<and> error_code r = Some (JInt (- 32601)))
   \<and> process_message echo_tools
      \<lparr>req_jsonrpc = ''2.0'', req_id = JInt 2, req_method = ''tools/call'', req_params = None\<rparr>
     = Inr (error_response (JInt 2) (- 32603) ''Tool name is required'')
   \<and> process_message echo_tools
      \<lparr>req_jsonrpc = ''2.0'', req_id = JInt 3, req_method = ''tools/call'',
       req_params = Some [(''name'', JStr ''no_such_tool'')]\<rparr>
     = Inr (error_response (JInt 3) (- 32603) ''Unknown tool: no_such_tool'')"
proof -
  let ?m1 = "\<lparr>req_jsonrpc = ''2.0'', req_id = JInt 1, req_method = ''resources/list'',
              req_params = None\<rparr>"
  let ?m2 = "\<lparr>req_jsonrpc = ''2.0'', req_id = JInt 2, req_method = ''tools/call'',
              req_params = None\<rparr>"
  let ?m3 = "\<lparr>req_jsonrpc = ''2.0'', req_id = JInt 3, req_method = ''tools/call'',
              req_params = Some [(''name'', JStr ''no_such_tool'')]\<rparr>"
  have "\<exists>r. process_message echo_tools ?m1 = Inr r
          \<and> resp_id r = JInt 1 \<and> error_code r = Some (JInt (- 32601))"
    using process_message_total [of echo_tools ?m1] by auto
  moreover have "process_message echo_tools ?m2
          = Inr (error_response (JInt 2) (- 32603) ''Tool name is required'')"
    using process_message_total [of echo_tools ?m2] by auto
  moreover have "process_message echo_tools ?m3
          = Inr (error_response (JInt 3) (- 32603) ''Unknown tool: no_such_tool'')"
    using process_message_total [of echo_tools ?m3]
    by (auto simp: dispatched_tool_names_def format_value_def)
  ultimately show ?thesis by simp
qed

text \<open>
  C10. For a successful request to the \<open>initialized\<close> method, whose handler returns
  \<open>None\<close>, the serialized response of the event stream contains neither a \<open>result\<close> nor an
  \<open>error\<close> field: only \<open>jsonrpc\<close> and, when the request's id is not \<open>None\<close>, \<open>id\<close>.
\<close>

theorem initialized_response_has_no_result_or_error:
  assumes "json_loads L request_body = Inr data"
    and "JsonRpcRequest_of L data = Inr request"
    and "req_method request = ''initialized''"
  shows "\<exists>d. sse_generator L C request_body = [Data (JObj d)]
           \<and> d = (''jsonrpc'', JStr ''2.0'')
                 # (if req_id request = JNull then [] else [(''id'', req_id request)])
           \<and> map_of d ''result'' = None \<and> map_of d ''error'' = None
           \<and> set (map fst d) \<subseteq> {''jsonrpc'', ''id''}"
  using assms
  by (simp add: sse_generator_def process_message_initialized model_dump_exclude_none_def
      model_dump_def result_response_def)

theorem initialized_response_has_no_result_or_error_witness:
  "sse_generator initialized_library echo_tools ''{...}''
     = [Data (JObj [(''jsonrpc'', JStr ''2.0''), (''id'', JInt 1)])]"
proof -
  let ?data = "JObj [(''jsonrpc'', JStr ''2.0''), (''id'', JInt 1), (''method'', JStr ''initialized'')]"
  let ?req = "\<lparr>req_jsonrpc = ''2.0'', req_id = JInt 1, req_method = ''initialized'',
               req_params = None\<rparr>"
  have a: "json_loads initialized_library ''{...}'' = Inr ?data"
    by (simp add: initialized_library_def)
  have b: "JsonRpcRequest_of initialized_library ?data = Inr ?req"
    by (simp add: JsonRpcRequest_of_def)
  have c: "req_method ?req = ''initialized''" by simp
  show ?thesis
    using initialized_response_has_no_result_or_error [OF a b c, of echo_tools] by simp
qed

section \<open>Application lifecycle: lemmas\<close>

lemma get_redis_url_default:
  "env ''REDIS_URL'' = None \<or> env ''REDIS_URL'' = Some ''redis://localhost:6379/0''
   \<Longrightarrow> get_redis_url env = ''redis://localhost:6379/0''"
  by (auto simp: get_redis_url_def)

lemma initialize_redis_default:
  "get_redis_url env = ''redis://localhost:6379/0'' \<Longrightarrow> initialize_redis W env s = s"
  by (simp add: initialize_redis_def)

lemma initialize_redis_unreachable:
  assumes "get_redis_url env = u" and "u \<noteq> ''redis://localhost:6379/0''"
    and "from_url_raises W u = Some e
         \<or> (from_url_raises W u = None \<and> ping_raises W (Redis u) = Some e)"
  shows "\<exists>calls. initialize_redis W env (g, tr)
           = (g\<lparr>redis_client := None\<rparr>,
              tr @ calls @ [Log_warning (''Could not connect to Redis: '' @ str_exc e
                                         @ '', continuing without Redis'')])"
  using assms
  by (auto simp: initialize_redis_def connect_redis_def Let_def)

text \<open>The registry and provider part only appends to the trace.\<close>

lemma initialize_registry_and_providers_trace:
  "initialize_registry_and_providers W env (g, tr)
     = (case initialize_registry_and_providers W env (g, []) of
          (r, (g', tr')) \<Rightarrow> (r, (g', tr @ tr')))"
  by (simp add: initialize_registry_and_providers_def Let_def split: option.splits)

text \<open>Of the environment it reads \<open>GITHUB_TOKEN\<close> only.\<close>

lemma initialize_registry_and_providers_env:
  "env' ''GITHUB_TOKEN'' = env ''GITHUB_TOKEN''
   \<Longrightarrow> initialize_registry_and_providers W env' s = initialize_registry_and_providers W env s"
  by (cases s) (simp add: initialize_registry_and_providers_def Let_def split: option.splits)

lemma lifespan_default:
  "get_redis_url env = ''redis://localhost:6379/0''
   \<Longrightarrow> lifespan W env g
       = (case initialize_registry_and_providers W env (g, [Log_info ''Starting MCP Web Server'']) of
            (None, s2) \<Rightarrow> (Yielded, s2)
          | (Some e, (g2, tr2)) \<Rightarrow>
              (Raises e, (g2, tr2 @ [Log_error (''Failed to initialize server: '' @ str_exc e)])))"
  by (simp add: lifespan_def initialize_redis_default)

lemma registry_and_providers_no_redis_calls:
  assumes "initialize_registry_and_providers W env (g, tr) = (r, (g', tr'))"
  shows "redis_client g' = redis_client g"
    and "\<exists>more. tr' = tr @ more \<and> (\<forall>u. Redis_from_url u \<notin> set more)
           \<and> (\<forall>c. Redis_ping c \<notin> set more)"
    and "doc_cache g' = doc_cache g \<or> doc_cache g' = Some (DocumentationCache (redis_client g))"
    and "r = None \<Longrightarrow> doc_cache g' = Some (DocumentationCache (redis_client g))"
  using assms
  by (auto simp: initialize_registry_and_providers_def Let_def split: option.splits)

section \<open>Application lifecycle: theorems\<close>

text \<open>
  C2. If the remote cache tier (Redis) is configured but unreachable at server
  initialization (creating the client or the ping raises), startup does not fail because
  of it: the connection error is logged as a warning, the global Redis client is \<open>None\<close>,
  and initialization continues exactly as it does with no remote tier configured, so the
  connection error never reaches the caller of \<open>lifespan\<close>. When the registry and the
  providers initialize, startup reaches the \<open>yield\<close> with a local-only cache.
\<close>

theorem redis_unreachable_startup_continues:
  assumes "env ''REDIS_URL'' = Some u" and "u \<noteq> ''redis://localhost:6379/0''"
    and "from_url_raises W u = Some e
         \<or> (from_url_raises W u = None \<and> ping_raises W (Redis u) = Some e)"
    and "lifespan W env g = (out, (g', tr))"
  shows "redis_client g' = None
         \<and> Log_warning (''Could not connect to Redis: '' @ str_exc e
                         @ '', continuing without Redis'') \<in> set tr
         \<and> (out, g') = (case lifespan W (env(''REDIS_URL'' := None)) (g\<lparr>redis_client := None\<rparr>) of
                          (out0, (g0, tr0)) \<Rightarrow> (out0, g0))
         \<and> (FrameworkRegistryManager_raises W = None \<and> initialize_raises W = None
              \<and> DocumentationCache_raises W None = None
              \<and> GitHubProvider_raises W (env ''GITHUB_TOKEN'') = None
              \<and> WebsiteProvider_raises W = None
            \<longrightarrow> out = Yielded \<and> doc_cache g' = Some (DocumentationCache None))"
proof -
  let ?start = "[Log_info ''Starting MCP Web Server'']"
  let ?w = "Log_warning (''Could not connect to Redis: '' @ str_exc e @ '', continuing without Redis'')"
  let ?g0 = "g\<lparr>redis_client := None\<rparr>"
  have u: "get_redis_url env = u"
    using assms(1) by (simp add: get_redis_url_def)
  obtain calls where r: "initialize_redis W env (g, ?start) = (?g0, ?start @ calls @ [?w])"
    using initialize_redis_unreachable [OF u assms(2) assms(3), of g ?start] by blast
  obtain x g2 tr2 where i: "initialize_registry_and_providers W env (?g0, []) = (x, (g2, tr2))"
    by (metis surj_pair)
  have with_redis: "initialize_registry_and_providers W env (?g0, ?start @ calls @ [?w])
                      = (x, (g2, (?start @ calls @ [?w]) @ tr2))"
    using initialize_registry_and_providers_trace [of W env ?g0 "?start @ calls @ [?w]"] i by simp
  have without: "initialize_registry_and_providers W (env(''REDIS_URL'' := None)) (?g0, ?start)
                      = (x, (g2, ?start @ tr2))"
    using initialize_registry_and_providers_trace [of W env ?g0 ?start] i
      initialize_registry_and_providers_env [of "env(''REDIS_URL'' := None)" env W "(?g0, ?start)"]
    by simp
  have l: "lifespan W env g
             = (case x of None \<Rightarrow> (Yielded, (g2, (?start @ calls @ [?w]) @ tr2))
                | Some e' \<Rightarrow> (Raises e', (g2, ((?start @ calls @ [?w]) @ tr2)
                     @ [Log_error (''Failed to initialize server: '' @ str_exc e')])))"
    using r with_redis by (simp add: lifespan_def split: option.splits)
  have l0: "lifespan W (env(''REDIS_URL'' := None)) ?g0
             = (case x of None \<Rightarrow> (Yielded, (g2, ?start @ tr2))
                | Some e' \<Rightarrow> (Raises e', (g2, (?start @ tr2)
                     @ [Log_error (''Failed to initialize server: '' @ str_exc e')])))"
    using without
    by (simp add: lifespan_def initialize_redis_default get_redis_url_def split: option.splits)
  have g2: "redis_client g2 = None"
    using registry_and_providers_no_redis_calls(1) [OF i] by simp
  have ok: "x = None \<and> doc_cache g2 = Some (DocumentationCache None)"
    if "FrameworkRegistryManager_raises W = None" "initialize_raises W = None"
      "DocumentationCache_raises W None = None"
      "GitHubProvider_raises W (env ''GITHUB_TOKEN'') = None" "WebsiteProvider_raises W = None"
    using i that by (auto simp: initialize_registry_and_providers_def Let_def)
  show ?thesis
    using l l0 assms(4) g2 ok by (cases x) auto
qed

theorem redis_unreachable_startup_continues_witness:
  "\<exists>g' tr. lifespan unreachable_redis remote_env initial_globals = (Yielded, (g', tr))
     \<and> redis_client g' = None
     \<and> doc_cache g' = Some (DocumentationCache None)
     \<and> Log_warning ''Could not connect to Redis: Connection refused, continuing without Redis''
         \<in> set tr"
proof -
  obtain out g' tr where l: "lifespan unreachable_redis remote_env initial_globals = (out, (g', tr))"
    by (metis surj_pair)
  have a: "remote_env ''REDIS_URL'' = Some ''redis://cache:6379/0''"
    by (simp add: remote_env_def)
  have b: "''redis://cache:6379/0'' \<noteq> ''redis://localhost:6379/0''"
    by simp
  have c: "from_url_raises unreachable_redis ''redis://cache:6379/0'' = Some (Raised ''Connection refused'')
           \<or> (from_url_raises unreachable_redis ''redis://cache:6379/0'' = None
              \<and> ping_raises unreachable_redis (Redis ''redis://cache:6379/0'')
                  = Some (Raised ''Connection refused''))"
    by (simp add: unreachable_redis_def)
  show ?thesis
    using redis_unreachable_startup_continues [OF a b c l] l
    by (simp add: unreachable_redis_def)
qed

text \<open>
  C3. If loading the framework registry catalog at startup fails (the registry's
  \<open>initialize\<close> raises), the failure is fatal: \<open>lifespan\<close> logs the error and re-raises the
  exception before its \<open>yield\<close>, so the server never enters a ready state; no cache has
  been created and the success line is never logged.
\<close>

theorem registry_failure_is_fatal:
  assumes "FrameworkRegistryManager_raises W = None"
    and "initialize_raises W = Some e"
    and "lifespan W env g = (out, (g', tr))"
  shows "out = Raises e
         \<and> last tr = Log_error (''Failed to initialize server: '' @ str_exc e)
         \<and> Log_info ''MCP Web Server initialized successfully'' \<notin> set tr
         \<and> doc_cache g' = doc_cache g"
proof -
  obtain g1 tr1 where s1: "initialize_redis W env (g, [Log_info ''Starting MCP Web Server'']) = (g1, tr1)"
    by (metis surj_pair)
  have d: "doc_cache g1 = doc_cache g"
    and n: "Log_info ''MCP Web Server initialized successfully'' \<notin> set tr1"
    using s1
    by (auto simp: initialize_redis_def connect_redis_def Let_def split: if_splits option.splits)
  have "initialize_registry_and_providers W env (g1, tr1)
          = (Some e, (g1\<lparr>registry_manager := Some FrameworkRegistryManager\<rparr>,
                      tr1 @ [Registry_initialize]))"
    using assms(1,2) by (simp add: initialize_registry_and_providers_def)
  with s1 assms(3) d n show ?thesis
    by (auto simp: lifespan_def)
qed

theorem registry_failure_is_fatal_witness:
  "\<exists>g' tr. lifespan broken_registry remote_env initial_globals
              = (Raises (Raised ''catalog is empty''), (g', tr))
     \<and> last tr = Log_error ''Failed to initialize server: catalog is empty''
     \<and> doc_cache g' = None"
proof -
  obtain out g' tr where l: "lifespan broken_registry remote_env initial_globals = (out, (g', tr))"
    by (metis surj_pair)
  have a: "FrameworkRegistryManager_raises broken_registry = None"
    by (simp add: broken_registry_def)
  have b: "initialize_raises broken_registry = Some (Raised ''catalog is empty'')"
    by (simp add: broken_registry_def)
  show ?thesis
    using registry_failure_is_fatal [OF a b l] l by (simp add: initial_globals_def)
qed

text \<open>
  C8. When the environment variable \<open>REDIS_URL\<close> is unset or equals the default
  \<open>redis://localhost:6379/0\<close>, the server never attempts a Redis connection, whatever a
  connection attempt would have answered: starting from the module's global state, in
  which the Redis client is \<open>None\<close>, no client is created and none is pinged, the global
  client stays \<open>None\<close>, and the cache, when it is constructed, is constructed with
  \<open>redis_client=None\<close>.
\<close>

theorem default_redis_url_never_connects:
  assumes "env ''REDIS_URL'' = None \<or> env ''REDIS_URL'' = Some ''redis://localhost:6379/0''"
    and "redis_client g = None"
    and "lifespan W env g = (out, (g', tr))"
  shows "(\<forall>u. Redis_from_url u \<notin> set tr) \<and> (\<forall>c. Redis_ping c \<notin> set tr)
         \<and> redis_client g' = None
         \<and> (doc_cache g' = doc_cache g \<or> doc_cache g' = Some (DocumentationCache None))
         \<and> (out = Yielded \<longrightarrow> doc_cache g' = Some (DocumentationCache None))"
proof -
  let ?s0 = "(g, [Log_info ''Starting MCP Web Server''])"
  obtain r g2 tr2 where i: "initialize_registry_and_providers W env ?s0 = (r, (g2, tr2))"
    by (metis surj_pair)
  note facts = registry_and_providers_no_redis_calls [OF i]
  have l: "lifespan W env g
     = (case r of None \<Rightarrow> (Yielded, (g2, tr2))
        | Some e \<Rightarrow> (Raises e, (g2, tr2 @ [Log_error (''Failed to initialize server: '' @ str_exc e)])))"
    using lifespan_default [OF get_redis_url_default [of env, OF assms(1)], of W g] i
    by (simp split: option.splits)
  show ?thesis
  proof (cases r)
    case None
    with l assms(3) have "out = Yielded" "g' = g2" "tr = tr2" by simp_all
    with facts None assms(2) show ?thesis by auto
  next
    case (Some e)
    with l assms(3) have "out = Raises e" "g' = g2"
      "tr = tr2 @ [Log_error (''Failed to initialize server: '' @ str_exc e)]" by simp_all
    with facts assms(2) show ?thesis by auto
  qed
qed

theorem default_redis_url_never_connects_witness:
  "\<exists>g' tr. lifespan reachable_redis default_env initial_globals = (Yielded, (g', tr))
     \<and> Redis_from_url ''redis://localhost:6379/0'' \<notin> set tr
     \<and> Redis_ping (Redis ''redis://localhost:6379/0'') \<notin> set tr
     \<and> redis_client g' = None
     \<and> doc_cache g' = Some (DocumentationCache None)"
proof -
  obtain out g' tr where l: "lifespan reachable_redis default_env initial_globals = (out, (g', tr))"
    by (metis surj_pair)
  have a: "default_env ''REDIS_URL'' = None
           \<or> default_env ''REDIS_URL'' = Some ''redis://localhost:6379/0''"
    by (simp add: default_env_def)
  have b: "redis_client initial_globals = None"
    by (simp add: initial_globals_def)
  have y: "out = Yielded"
    using l
    by (simp add: lifespan_def initialize_redis_def get_redis_url_def default_env_def
        initialize_registry_and_providers_def reachable_redis_def)
  show ?thesis
    using default_redis_url_never_connects [OF a b l] l y by simp
qed

section \<open>Refresh coordinator: lemmas\<close>

lemma run_Nil [simp]: "run s [] = s"
  by (simp add: run_def)

lemma run_Cons [simp]: "run s (e # evs) = run (step s e) evs"
  by (simp add: run_def)

lemma run_append: "run s (xs @ ys) = run (run s xs) ys"
  by (simp add: run_def)

lemma attached_append:
  "attached key s (xs @ ys) = attached key s xs @ attached key (run s xs) ys"
  by (induction xs arbitrary: s) simp_all

lemma remote_lookup_absent: "absent st key \<Longrightarrow> remote_lookup st key ok = None"
  by (auto simp: absent_def remote_lookup_def split: option.splits)

lemma evict_expired_absent: "absent st key \<Longrightarrow> evict_expired st key now = st"
  by (simp add: evict_expired_def absent_def)

lemma store_get_absent: "absent st key \<Longrightarrow> store_get st key ok now = (None, st)"
proof -
  assume a: "absent st key"
  have "local_tier st key = None"
    using a by (simp add: absent_def)
  then show ?thesis
    using evict_expired_absent [OF a, of now] remote_lookup_absent [OF a, of ok]
    by (simp add: store_get_def live_def Let_def)
qed

lemma prior_entry_absent: "absent st key \<Longrightarrow> prior_entry st key ok = None"
  by (simp add: prior_entry_def remote_lookup_absent absent_def)

lemma evict_other: "absent st key \<Longrightarrow> absent (evict st key') key"
  by (simp add: absent_def evict_def)

lemma evict_expired_other: "absent st key \<Longrightarrow> absent (evict_expired st key' now) key"
  by (simp add: evict_expired_def evict_other split: option.splits)

lemma store_get_other:
  assumes "store_get st key' ok now = (x, st')" and "key' \<noteq> key" and "absent st key"
  shows "absent st' key"
proof -
  have a: "absent (evict_expired st key' now) key"
    using assms(3) by (rule evict_expired_other)
  have b: "absent (evict_expired st key' now\<lparr>local_tier := (local_tier (evict_expired st key' now))(key' \<mapsto> e)\<rparr>) key" for e
    using a assms(2) by (simp add: absent_def)
  show ?thesis
    using assms(1) a b
    by (auto simp: store_get_def Let_def split: option.splits)
qed

lemma store_put_other: "key' \<noteq> key \<Longrightarrow> absent st key \<Longrightarrow> absent (store_put st key' e ok) key"
  by (auto simp: store_put_def absent_def split: option.splits)

text \<open>A cache read of a key that no tier holds is not a hit: the store stays as it is and
  the caller goes on to the ticket check.\<close>

lemma lookup_absent:
  assumes "absent (store s) key"
  shows "store (getOrRefresh_lookup c key d f u ok now s) = store s"
    and "pending (getOrRefresh_lookup c key d f u ok now s) c = Some key"
  using assms
  by (auto simp: getOrRefresh_lookup_def store_get_absent)

lemma lookup_frame:
  "tickets (getOrRefresh_lookup c key d f u ok now s) = tickets s"
  "provider_calls (getOrRefresh_lookup c key d f u ok now s) = provider_calls s"
  "in_flight (getOrRefresh_lookup c key d f u ok now s) = in_flight s"
  "default_ttl (getOrRefresh_lookup c key d f u ok now s) = default_ttl s"
  "c' \<noteq> c \<Longrightarrow> pending (getOrRefresh_lookup c key d f u ok now s) c' = pending s c'"
  by (auto simp: getOrRefresh_lookup_def split: option.splits prod.splits if_splits)

lemma lookup_other:
  assumes "key' \<noteq> key" and "absent (store s) key"
  shows "absent (store (getOrRefresh_lookup c key' d f u ok now s)) key"
proof (cases "\<not> u \<or> f")
  case True
  then show ?thesis
    using assms(2) by (auto simp: getOrRefresh_lookup_def)
next
  case False
  obtain x st' where g: "store_get (store s) key' ok now = (x, st')"
    by (metis surj_pair)
  have "absent st' key"
    using store_get_other [OF g assms] .
  with False g show ?thesis
    by (auto simp: getOrRefresh_lookup_def split: option.splits)
qed

lemma ticket_frame:
  "store (getOrRefresh_ticket c s) = store s"
  "default_ttl (getOrRefresh_ticket c s) = default_ttl s"
  "c' \<noteq> c \<Longrightarrow> pending (getOrRefresh_ticket c s) c' = pending s c'"
  by (auto simp: getOrRefresh_ticket_def Let_def split: option.splits)

lemma ticket_attach:
  assumes "pending s c = Some key"
  shows "tickets (getOrRefresh_ticket c s) key
           = Some ((case tickets s key of None \<Rightarrow> [] | Some ws \<Rightarrow> ws) @ [c])"
    and "provider_calls (getOrRefresh_ticket c s) key
           = provider_calls s key + (if tickets s key = None then 1 else 0)"
  using assms
  by (auto simp: getOrRefresh_ticket_def Let_def split: option.splits)

lemma ticket_other:
  assumes "pending s c \<noteq> Some key"
  shows "tickets (getOrRefresh_ticket c s) key = tickets s key"
    and "provider_calls (getOrRefresh_ticket c s) key = provider_calls s key"
  using assms
  by (auto simp: getOrRefresh_ticket_def Let_def split: option.splits)

lemma finish_other:
  assumes "key' \<noteq> key"
  shows "tickets (getOrRefresh_finish key' r ok now s) key = tickets s key"
    and "provider_calls (getOrRefresh_finish key' r ok now s) key = provider_calls s key"
    and "absent (store s) key \<Longrightarrow> absent (store (getOrRefresh_finish key' r ok now s)) key"
  using assms
  by (auto simp: getOrRefresh_finish_def Let_def store_put_other split: option.splits fetch_result.splits)

lemma finish_frame:
  "pending (getOrRefresh_finish key r ok now s) = pending s"
  "default_ttl (getOrRefresh_finish key r ok now s) = default_ttl s"
  by (auto simp: getOrRefresh_finish_def Let_def split: option.splits fetch_result.splits)

lemma attached_single:
  "attached key s [e]
     = (case e of Ticket c \<Rightarrow> if pending s c = Some key then [c] else [] | _ \<Rightarrow> [])"
  by simp

lemma attached_Cons:
  "attached key s (e # evs) = attached key s [e] @ attached key (step s e) evs"
  by simp

lemma step_absent:
  assumes "absent (store s) key" and "\<not> completes key e"
  shows "absent (store (step s e)) key"
proof (cases e)
  case (Lookup c k d f u ok now)
  show ?thesis
  proof (cases "k = key")
    case True
    with Lookup assms(1) show ?thesis by (simp add: lookup_absent(1))
  next
    case False
    with Lookup assms(1) show ?thesis by (simp add: lookup_other)
  qed
next
  case (Ticket c)
  with assms(1) show ?thesis by (simp add: ticket_frame(1))
next
  case (Completion k r ok now)
  with assms show ?thesis by (simp add: finish_other(3))
next
  case (Eviction k)
  with assms(1) show ?thesis by (simp add: evict_other)
qed

lemma step_tickets:
  assumes "\<not> completes key e"
  shows "tickets (step s e) key
          = (if attached key s [e] = [] then tickets s key
             else Some ((case tickets s key of None \<Rightarrow> [] | Some ws \<Rightarrow> ws) @ attached key s [e]))"
    and "provider_calls (step s e) key
          = provider_calls s key
            + (if attached key s [e] \<noteq> [] \<and> tickets s key = None then 1 else 0)"
proof -
  show "tickets (step s e) key
          = (if attached key s [e] = [] then tickets s key
             else Some ((case tickets s key of None \<Rightarrow> [] | Some ws \<Rightarrow> ws) @ attached key s [e]))"
  proof (cases e)
    case (Lookup c k d f u ok now)
    then show ?thesis by (simp add: lookup_frame(1))
  next
    case (Ticket c)
    show ?thesis
    proof (cases "pending s c = Some key")
      case True
      with Ticket show ?thesis by (simp add: ticket_attach(1))
    next
      case False
      with Ticket show ?thesis by (simp add: ticket_other(1))
    qed
  next
    case (Completion k r ok now)
    with assms show ?thesis by (simp add: finish_other(1))
  next
    case (Eviction k)
    then show ?thesis by simp
  qed
  show "provider_calls (step s e) key
          = provider_calls s key
            + (if attached key s [e] \<noteq> [] \<and> tickets s key = None then 1 else 0)"
  proof (cases e)
    case (Lookup c k d f u ok now)
    then show ?thesis by (simp add: lookup_frame(2))
  next
    case (Ticket c)
    show ?thesis
    proof (cases "pending s c = Some key")
      case True
      with Ticket show ?thesis by (simp add: ticket_attach(2))
    next
      case False
      with Ticket show ?thesis by (simp add: ticket_other(2))
    qed
  next
    case (Completion k r ok now)
    with assms show ?thesis by (simp add: finish_other(2))
  next
    case (Eviction k)
    then show ?thesis by simp
  qed
qed

lemma run_absent:
  assumes "absent (store s) key" and "\<forall>e\<in>set evs. \<not> completes key e"
  shows "absent (store (run s evs)) key"
  using assms
proof (induction evs arbitrary: s)
  case Nil
  then show ?case by simp
next
  case (Cons e evs)
  have "absent (store (step s e)) key"
    using step_absent [OF Cons.prems(1)] Cons.prems(2) by simp
  then show ?case
    using Cons.IH Cons.prems(2) by simp
qed

text \<open>While no fetch for the key completes, the key's ticket collects the callers that
  pass the ticket check, and only the first of them invokes the provider.\<close>

lemma run_no_completion:
  assumes "\<forall>e\<in>set evs. \<not> completes key e"
  shows "tickets (run s evs) key
        = (if attached key s evs = [] then tickets s key
           else Some ((case tickets s key of None \<Rightarrow> [] | Some ws \<Rightarrow> ws) @ attached key s evs))
    \<and> provider_calls (run s evs) key
        = provider_calls s key
          + (if attached key s evs \<noteq> [] \<and> tickets s key = None then 1 else 0)"
  using assms
proof (induction evs arbitrary: s)
  case Nil
  then show ?case by simp
next
  case (Cons e evs)
  have e: "\<not> completes key e"
    using Cons.prems by simp
  note st = step_tickets [OF e, of s]
  have rest: "\<forall>e\<in>set evs. \<not> completes key e"
    using Cons.prems by simp
  note ih = Cons.IH [OF rest, of "step s e"]
  show ?case
  proof (cases "attached key s [e] = []")
    case True
    with st ih show ?thesis
      by (simp add: attached_Cons [of key s e evs] del: attached.simps)
  next
    case False
    with st ih show ?thesis
      by (simp add: attached_Cons [of key s e evs] del: attached.simps)
  qed
qed

lemma step_pending_other:
  assumes "\<not> lookup_by c e" and "e \<noteq> Ticket c"
  shows "pending (step s e) c = pending s c"
  using assms
  by (cases e) (auto simp: lookup_frame(5) ticket_frame(3) finish_frame(1))

text \<open>A caller that waits for its ticket check attaches when the check comes.\<close>

lemma pending_attaches:
  assumes "pending s c = Some key" and "Ticket c \<in> set evs"
    and "\<forall>e\<in>set evs. \<not> lookup_by c e"
  shows "c \<in> set (attached key s evs)"
  using assms
proof (induction evs arbitrary: s)
  case Nil
  then show ?case by simp
next
  case (Cons e evs)
  show ?case
  proof (cases "e = Ticket c")
    case True
    with Cons.prems(1) show ?thesis by simp
  next
    case False
    have l: "\<not> lookup_by c e"
      using Cons.prems(3) by simp
    have "pending (step s e) c = Some key"
      using step_pending_other [OF l False, of s] Cons.prems(1) by simp
    moreover have "Ticket c \<in> set evs"
      using Cons.prems(2) False by auto
    moreover have "\<forall>e\<in>set evs. \<not> lookup_by c e"
      using Cons.prems(3) by simp
    ultimately have "c \<in> set (attached key (step s e) evs)"
      by (rule Cons.IH)
    then show ?thesis
      by (simp add: attached_Cons [of key s e evs] del: attached.simps)
  qed
qed

lemma call_attaches:
  assumes "absent (store s) key" and "\<forall>e\<in>set evs. \<not> completes key e"
    and "evs = pre @ Lookup c key d f u ok now # post"
    and "Ticket c \<in> set post" and "\<forall>e\<in>set post. \<not> lookup_by c e"
  shows "c \<in> set (attached key s evs)"
proof -
  have "\<forall>e\<in>set pre. \<not> completes key e"
    using assms(2,3) by simp
  then have a: "absent (store (run s pre)) key"
    using run_absent [OF assms(1)] by blast
  let ?s1 = "step (run s pre) (Lookup c key d f u ok now)"
  have p: "pending ?s1 c = Some key"
    using lookup_absent(2) [OF a] by simp
  have "c \<in> set (attached key ?s1 post)"
    using pending_attaches [OF p assms(4) assms(5)] .
  then show ?thesis
    by (simp add: assms(3) attached_append del: attached.simps)
      (simp add: attached_Cons [of key "run s pre" "Lookup c key d f u ok now" post] del: attached.simps)
qed

text \<open>The invariant: a fetch is in flight for a key exactly when the key has a ticket.\<close>

lemma step_in_flight:
  assumes "\<forall>k. in_flight s k = (if tickets s k = None then 0 else 1)"
  shows "\<forall>k. in_flight (step s e) k = (if tickets (step s e) k = None then 0 else 1)"
proof (cases e)
  case (Lookup c k d f u ok now)
  with assms show ?thesis by (simp add: lookup_frame(1,3))
next
  case (Ticket c)
  with assms show ?thesis
    by (auto simp: getOrRefresh_ticket_def Let_def split: option.splits)
next
  case (Completion k r ok now)
  with assms show ?thesis
    by (auto simp: getOrRefresh_finish_def Let_def split: option.splits fetch_result.splits)
next
  case (Eviction k)
  with assms show ?thesis by simp
qed

lemma run_in_flight:
  assumes "\<forall>k. in_flight s k = (if tickets s k = None then 0 else 1)"
  shows "\<forall>k. in_flight (run s evs) k = (if tickets (run s evs) k = None then 0 else 1)"
  using assms
proof (induction evs arbitrary: s)
  case Nil
  then show ?case by simp
next
  case (Cons e evs)
  show ?case
    using Cons.IH [OF step_in_flight [OF Cons.prems]] by simp
qed

lemma step_default_ttl: "default_ttl (step s e) = default_ttl s"
  by (cases e) (simp_all add: lookup_frame(4) ticket_frame(2) finish_frame(2))

lemma run_default_ttl: "default_ttl (run s evs) = default_ttl s"
  by (induction evs arbitrary: s) (simp_all add: step_default_ttl)

lemma finish_waiters:
  assumes "tickets s key = Some ws"
  shows "\<forall>w\<in>set ws. received (getOrRefresh_finish key r ok now s) w
           = Some (case r of
                     Fetched c m \<Rightarrow>
                       Entry \<lparr>content = c, originMetadata = m, fetchedAt = now,
                              ttl = Some (default_ttl s (snd (snd key)))\<rparr>
                   | FetchFailed err \<Rightarrow>
                       (case prior_entry (store s) key ok of
                          Some e \<Rightarrow> Entry e | None \<Rightarrow> Failure err))"
    and "tickets (getOrRefresh_finish key r ok now s) key = None"
    and "provider_calls (getOrRefresh_finish key r ok now s) = provider_calls s"
    and "in_flight (getOrRefresh_finish key r ok now s) key = in_flight s key - 1"
  using assms
  by (auto simp: getOrRefresh_finish_def Let_def deliver_def split: fetch_result.splits)







section \<open>Refresh coordinator: theorems\<close>

text \<open>
  Two calls on a cold key may both finish their cache read without a hit before any fetch
  has completed. When the second of them reaches the ticket check only after the first
  one's fetch has failed and its ticket is destroyed, it finds no ticket and invokes the
  provider again: two invocations, and the two callers receive different results.
\<close>

theorem single_flight_counterexample:
  "tickets cold_coordinator react_docs = None
   \<and> absent (store cold_coordinator) react_docs
   \<and> provider_calls cold_coordinator react_docs = 0
   \<and> provider_calls (run cold_coordinator late_ticket) react_docs = 2
   \<and> received (run cold_coordinator late_ticket) 1 = Some (Failure ''timeout'')
   \<and> received (run cold_coordinator late_ticket) 2
       = Some (Entry \<lparr>content = ''docs'', originMetadata = ''github'', fetchedAt = 30,
                      ttl = Some 86400\<rparr>)"
  by (simp add: cold_coordinator_def initial_coordinator_def absent_def late_ticket_def
      react_docs_def getOrRefresh_lookup_def getOrRefresh_ticket_def getOrRefresh_finish_def
      store_get_def evict_expired_def live_def remote_lookup_def prior_entry_def store_put_def
      deliver_def Let_def)

text \<open>
  C1, as amended. For every set of concurrent \<open>getOrRefresh\<close> calls on the same cache key
  with no existing cache entry and no fetch in flight, whose callers all pass the ticket
  check before the fetch for the key completes (interleaved with any steps of calls on
  other keys and any evictions), the Content Provider is invoked exactly once for the
  key, and when the fetch completes all of these callers receive the same result: the
  new entry, or the same failure. Every call on the key whose cache read and ticket check
  both happen in that time is among them. At every instant of every run at most one
  Content-Provider fetch is in flight per key.
\<close>

theorem single_flight_before_completion:
  assumes "tickets s key = None" and "absent (store s) key"
    and "\<forall>e\<in>set evs. \<not> completes key e"
    and "attached key s evs \<noteq> []"
    and "\<forall>k. in_flight s k = (if tickets s k = None then 0 else 1)"
  shows "provider_calls (run s evs) key = provider_calls s key + 1
     \<and> provider_calls (getOrRefresh_finish key r ok now (run s evs)) key = provider_calls s key + 1
     \<and> tickets (run s evs) key = Some (attached key s evs)
     \<and> (\<forall>c\<in>set (attached key s evs).
           received (getOrRefresh_finish key r ok now (run s evs)) c
             = Some (case r of
                       Fetched co m \<Rightarrow>
                         Entry \<lparr>content = co, originMetadata = m, fetchedAt = now,
                                ttl = Some (default_ttl s (snd (snd key)))\<rparr>
                     | FetchFailed err \<Rightarrow> Failure err))
     \<and> (\<forall>pre post c d f u ok' now'.
           evs = pre @ Lookup c key d f u ok' now' # post \<and> Ticket c \<in> set post
           \<and> (\<forall>e\<in>set post. \<not> lookup_by c e)
           \<longrightarrow> c \<in> set (attached key s evs))
     \<and> (\<forall>evs' k. in_flight (run s evs') k \<le> 1)"
proof -
  note rc = run_no_completion [OF assms(3), of s]
  have t: "tickets (run s evs) key = Some (attached key s evs)"
    using rc assms(1) assms(4) by simp
  have p: "provider_calls (run s evs) key = provider_calls s key + 1"
    using rc assms(1) assms(4) by simp
  have a: "prior_entry (store (run s evs)) key ok = None"
    using run_absent [OF assms(2) assms(3)] by (simp add: prior_entry_absent)
  note fw = finish_waiters [OF t, of r ok now]
  have recv: "\<forall>c\<in>set (attached key s evs).
           received (getOrRefresh_finish key r ok now (run s evs)) c
             = Some (case r of
                       Fetched co m \<Rightarrow>
                         Entry \<lparr>content = co, originMetadata = m, fetchedAt = now,
                                ttl = Some (default_ttl s (snd (snd key)))\<rparr>
                     | FetchFailed err \<Rightarrow> Failure err)"
    using fw(1) a by (simp add: run_default_ttl split: fetch_result.splits)
  have att: "c \<in> set (attached key s evs)"
    if "evs = pre @ Lookup c key d f u ok' now' # post" "Ticket c \<in> set post"
      "\<forall>e\<in>set post. \<not> lookup_by c e"
    for pre post c d f u ok' now'
    using call_attaches [OF assms(2) assms(3) that] .
  have inv: "in_flight (run s evs') k \<le> 1" for evs' k
    using run_in_flight [OF assms(5), of evs', THEN spec, of k] by (simp split: if_splits)
  have p2: "provider_calls (getOrRefresh_finish key r ok now (run s evs)) key = provider_calls s key + 1"
    using fw(3) p by simp
  show ?thesis
    using t p p2 recv att inv by blast
qed

theorem single_flight_before_completion_witness:
  "attached react_docs cold_coordinator three_calls = [1, 3, 2]
   \<and> provider_calls (run cold_coordinator three_calls) react_docs = 1
   \<and> tickets (run cold_coordinator three_calls) react_docs = Some [1, 3, 2]
   \<and> received (getOrRefresh_finish react_docs (FetchFailed ''timeout'') True 20
                 (run cold_coordinator three_calls)) 1 = Some (Failure ''timeout'')
   \<and> received (getOrRefresh_finish react_docs (FetchFailed ''timeout'') True 20
                 (run cold_coordinator three_calls)) 2 = Some (Failure ''timeout'')
   \<and> received (getOrRefresh_finish react_docs (FetchFailed ''timeout'') True 20
                 (run cold_coordinator three_calls)) 3 = Some (Failure ''timeout'')
   \<and> provider_calls (getOrRefresh_finish react_docs (FetchFailed ''timeout'') True 20
                 (run cold_coordinator three_calls)) react_docs = 1
   \<and> in_flight (run cold_coordinator three_calls) react_docs \<le> 1"
proof -
  have a: "tickets cold_coordinator react_docs = None"
    by (simp add: cold_coordinator_def initial_coordinator_def)
  have b: "absent (store cold_coordinator) react_docs"
    by (simp add: cold_coordinator_def initial_coordinator_def absent_def)
  have c: "\<forall>e\<in>set three_calls. \<not> completes react_docs e"
    by (simp add: three_calls_def)
  have cs: "attached react_docs cold_coordinator three_calls = [1, 3, 2]"
    by (simp add: three_calls_def react_docs_def vue_docs_def cold_coordinator_def
        initial_coordinator_def getOrRefresh_lookup_def getOrRefresh_ticket_def
        store_get_def evict_expired_def live_def remote_lookup_def Let_def)
  have d: "attached react_docs cold_coordinator three_calls \<noteq> []"
    by (simp add: cs)
  have e: "\<forall>k. in_flight cold_coordinator k = (if tickets cold_coordinator k = None then 0 else 1)"
    by (simp add: cold_coordinator_def initial_coordinator_def)
  have p: "provider_calls cold_coordinator react_docs = 0"
    by (simp add: cold_coordinator_def initial_coordinator_def)
  note sf = single_flight_before_completion [OF a b c d e, of "FetchFailed ''timeout''" True 20]
  from sf have inv: "in_flight (run cold_coordinator three_calls) react_docs \<le> 1"
    by blast
  from sf have
    "provider_calls (run cold_coordinator three_calls) react_docs
       = provider_calls cold_coordinator react_docs + 1"
    "provider_calls (getOrRefresh_finish react_docs (FetchFailed ''timeout'') True 20
        (run cold_coordinator three_calls)) react_docs
       = provider_calls cold_coordinator react_docs + 1"
    "tickets (run cold_coordinator three_calls) react_docs
       = Some (attached react_docs cold_coordinator three_calls)"
    "\<forall>c\<in>set (attached react_docs cold_coordinator three_calls).
       received (getOrRefresh_finish react_docs (FetchFailed ''timeout'') True 20
          (run cold_coordinator three_calls)) c = Some (Failure ''timeout'')"
    by simp_all
  with cs p inv show ?thesis
    by simp
qed




end
